theory Spec2Isabelle
  imports Main "HOL-Library.Char_ord" "HOL-Library.List_Lexorder"
begin

section \<open>Data model (src/types/index.ts)\<close>

text \<open>
  The interfaces \<open>User\<close>, \<open>School\<close> and \<open>Class\<close> become records. A field that is
  optional or nullable in TypeScript (\<open>schoolId?\<close>, \<open>description?\<close>, \<open>baseId?: string | null\<close>)
  is an \<open>option\<close>; \<open>None\<close> stands for both \<open>undefined\<close> and \<open>null\<close>. The field \<open>id\<close> of
  \<open>Class\<close> is called \<open>cid\<close> here, because \<open>id\<close> is the identity function of HOL; the fields
  of \<open>User\<close> and \<open>School\<close> carry the prefixes \<open>u_\<close> and \<open>s_\<close>, because two records cannot
  share a field name. \<open>datetime\<close> is a string, as in the source (an ISO 8601 text), and the
  document store compares strings lexicographically, character by character.
\<close>

datatype role = student | teacher

datatype level = beginner | intermediate | advanced

record User =
  u_id :: string
  u_email :: string
  u_name :: string
  u_role :: role
  u_schoolId :: "string option"

record School =
  s_id :: string
  s_name :: string
  s_address :: string
  s_email :: string
  s_logo :: "string option"
  s_instagram :: "string option"
  s_teacherIds :: "string list"

record Class =
  cid :: string
  title :: string
  teacherId :: string
  datetime :: string
  duration :: int
  maxStudents :: int
  enrolledStudents :: "string list"
  isRecurring :: bool
  level :: level
  description :: "string option"
  baseId :: "string option"
  schoolId :: string

text \<open>
  \<open>Partial<Class>\<close>, the argument of \<open>updateClass\<close>: every field may be absent. The field
  \<open>baseId\<close> may be present with the value \<open>null\<close>, hence the nested option.
\<close>

record ClassPatch =
  p_cid :: "string option"
  p_title :: "string option"
  p_teacherId :: "string option"
  p_datetime :: "string option"
  p_duration :: "int option"
  p_maxStudents :: "int option"
  p_enrolledStudents :: "string list option"
  p_isRecurring :: "bool option"
  p_level :: "level option"
  p_description :: "string option"
  p_baseId :: "string option option"
  p_schoolId :: "string option"

text \<open>
  JavaScript truthiness of a value of type \<open>string | null | undefined\<close>, as tested by
  \<open>if (x)\<close>, \<open>a && x\<close> and \<open>!x\<close>: \<open>undefined\<close>, \<open>null\<close> and the empty string are falsy.
\<close>

definition truthy :: "string option \<Rightarrow> bool" where
  "truthy v = (case v of None \<Rightarrow> False | Some s \<Rightarrow> s \<noteq> [])"

section \<open>The document store and the identity service (firebase/firestore, firebase/auth)\<close>

text \<open>
  A collection is the list of its documents, each a pair of the document key and its data;
  a well-formed collection has no two documents with one key (\<open>wf_collection\<close>).
\<close>

type_synonym 'd collection = "(string \<times> 'd) list"

definition wf_collection :: "'d collection \<Rightarrow> bool" where
  "wf_collection col = distinct (map fst col)"

text \<open>The \<open>where\<close> clauses the source uses in its queries on the collection of classes.\<close>

datatype cond = BaseIdEq string | SchoolIdEq string | DatetimeGe string

fun holds :: "cond \<Rightarrow> Class \<Rightarrow> bool" where
  "holds (BaseIdEq b) c = (baseId c = Some b)"
| "holds (SchoolIdEq s) c = (schoolId c = s)"
| "holds (DatetimeGe t) c = (t \<le> datetime c)"

text \<open>\<open>arrayUnion(x)\<close> adds \<open>x\<close> unless it is there; \<open>arrayRemove(x)\<close> removes every \<open>x\<close>.\<close>

definition arrayUnion :: "string \<Rightarrow> string list \<Rightarrow> string list" where
  "arrayUnion x xs = (if x \<in> set xs then xs else xs @ [x])"

definition arrayRemove :: "string \<Rightarrow> string list \<Rightarrow> string list" where
  "arrayRemove x xs = filter (\<lambda>y. y \<noteq> x) xs"

text \<open>
  The three kinds of update the source sends for a class document: a partial object of
  fields, and the two field transforms on \<open>enrolledStudents\<close>.
\<close>

datatype update = Fields ClassPatch | EnrolledUnion string | EnrolledRemove string

definition applyPatch :: "ClassPatch \<Rightarrow> Class \<Rightarrow> Class" where
  "applyPatch p c =
     \<lparr> cid = (case p_cid p of None \<Rightarrow> cid c | Some v \<Rightarrow> v),
       title = (case p_title p of None \<Rightarrow> title c | Some v \<Rightarrow> v),
       teacherId = (case p_teacherId p of None \<Rightarrow> teacherId c | Some v \<Rightarrow> v),
       datetime = (case p_datetime p of None \<Rightarrow> datetime c | Some v \<Rightarrow> v),
       duration = (case p_duration p of None \<Rightarrow> duration c | Some v \<Rightarrow> v),
       maxStudents = (case p_maxStudents p of None \<Rightarrow> maxStudents c | Some v \<Rightarrow> v),
       enrolledStudents =
         (case p_enrolledStudents p of None \<Rightarrow> enrolledStudents c | Some v \<Rightarrow> v),
       isRecurring = (case p_isRecurring p of None \<Rightarrow> isRecurring c | Some v \<Rightarrow> v),
       level = (case p_level p of None \<Rightarrow> level c | Some v \<Rightarrow> v),
       description = (case p_description p of None \<Rightarrow> description c | Some v \<Rightarrow> Some v),
       baseId = (case p_baseId p of None \<Rightarrow> baseId c | Some v \<Rightarrow> v),
       schoolId = (case p_schoolId p of None \<Rightarrow> schoolId c | Some v \<Rightarrow> v) \<rparr>"

fun applyUpdate :: "update \<Rightarrow> Class \<Rightarrow> Class" where
  "applyUpdate (Fields p) c = applyPatch p c"
| "applyUpdate (EnrolledUnion x) c = c\<lparr>enrolledStudents := arrayUnion x (enrolledStudents c)\<rparr>"
| "applyUpdate (EnrolledRemove x) c = c\<lparr>enrolledStudents := arrayRemove x (enrolledStudents c)\<rparr>"

text \<open>The operations of a write batch, in the order \<open>batch.set\<close>, \<open>batch.update\<close>, \<open>batch.delete\<close>.\<close>

datatype batchWrite = WSet string Class | WUpdate string update | WDelete string

text \<open>
  Every call the source makes to the store or to the identity service is recorded, in order,
  so that "this operation made no call" and "this operation made one batched write" can be
  stated. The first argument of a store call is the name of the collection.
\<close>

datatype call =
    GetDoc string string
  | GetDocs string "cond list"
  | SetDoc string string
  | UpdateDoc string string
  | DeleteDoc string string
  | Commit "batchWrite list"
  | Reauthenticate
  | UpdateEmail
  | UpdatePassword

text \<open>The signed-in account of the identity service: \<open>auth.currentUser\<close>.\<close>

record AuthUser =
  a_email :: string
  a_password :: string

record firebase =
  classesCol :: "Class collection"
  usersCol :: "User collection"
  currentUser :: "AuthUser option"
  calls :: "call list"

definition logCall :: "call \<Rightarrow> firebase \<Rightarrow> firebase" where
  "logCall c fb = fb\<lparr>calls := calls fb @ [c]\<rparr>"

text \<open>The calls that write to the store.\<close>

definition isWrite :: "call \<Rightarrow> bool" where
  "isWrite c =
     (case c of
        SetDoc _ _ \<Rightarrow> True | UpdateDoc _ _ \<Rightarrow> True | DeleteDoc _ _ \<Rightarrow> True
      | Commit _ \<Rightarrow> True | _ \<Rightarrow> False)"

definition writesOf :: "call list \<Rightarrow> call list" where
  "writesOf cs = filter isWrite cs"

subsection \<open>Primitives on one collection\<close>

definition getDoc :: "'d collection \<Rightarrow> string \<Rightarrow> 'd option" where
  "getDoc col k = map_of col k"

definition getDocs :: "cond list \<Rightarrow> Class collection \<Rightarrow> Class collection" where
  "getDocs qs col = filter (\<lambda>(k, d). list_all (\<lambda>q. holds q d) qs) col"

definition setDoc :: "string \<Rightarrow> 'd \<Rightarrow> 'd collection \<Rightarrow> 'd collection" where
  "setDoc k d col =
     (if k \<in> set (map fst col)
      then map (\<lambda>(k', d'). if k' = k then (k', d) else (k', d')) col
      else col @ [(k, d)])"

text \<open>\<open>updateDoc\<close> fails on a document that does not exist: the result is \<open>None\<close> then.\<close>

definition updateDoc :: "string \<Rightarrow> ('d \<Rightarrow> 'd) \<Rightarrow> 'd collection \<Rightarrow> 'd collection option" where
  "updateDoc k f col =
     (if k \<in> set (map fst col)
      then Some (map (\<lambda>(k', d'). if k' = k then (k', f d') else (k', d')) col)
      else None)"

definition deleteDoc :: "string \<Rightarrow> 'd collection \<Rightarrow> 'd collection" where
  "deleteDoc k col = filter (\<lambda>(k', d'). k' \<noteq> k) col"

text \<open>
  A batch commits all of its writes or none: the writes are applied in order, and an update
  of a document that does not exist makes the whole commit fail (\<open>None\<close>).
\<close>

fun applyWrite :: "batchWrite \<Rightarrow> Class collection \<Rightarrow> Class collection option" where
  "applyWrite (WSet k d) col = Some (setDoc k d col)"
| "applyWrite (WUpdate k u) col = updateDoc k (applyUpdate u) col"
| "applyWrite (WDelete k) col = Some (deleteDoc k col)"

fun commit :: "batchWrite list \<Rightarrow> Class collection \<Rightarrow> Class collection option" where
  "commit [] col = Some col"
| "commit (w # ws) col = (case applyWrite w col of None \<Rightarrow> None | Some col' \<Rightarrow> commit ws col')"

section \<open>The published state (the zustand store of store/useStore.ts)\<close>

record Store =
  user :: "User option"
  school :: "School option"
  classes :: "Class list"
  isLoading :: bool

text \<open>
  What an operation of the store throws. \<open>NotFound\<close> is \<open>Error('Class not found')\<close>;
  \<open>Unauthenticated\<close> is \<open>Error('Utilisateur non connecte')\<close>; \<open>ValidationFailure\<close> is
  \<open>Error('Mot de passe actuel requis pour modifier email ou mot de passe')\<close>, thrown when
  a change of email or password comes without the current password; \<open>BackendFailure\<close> is
  an error thrown by the store or the identity service itself (a rejected credential, an
  update of a document that does not exist, a batch that fails).
\<close>

datatype error = NotFound | Unauthenticated | ValidationFailure | BackendFailure

datatype outcome = Ok | Failed error

type_synonym state = "firebase \<times> Store"

type_synonym result = "outcome \<times> firebase \<times> Store"

definition outcomeOf :: "result \<Rightarrow> outcome" where
  "outcomeOf r = fst r"

definition classDocs :: "result \<Rightarrow> Class collection" where
  "classDocs r = classesCol (fst (snd r))"

definition callsOf :: "result \<Rightarrow> call list" where
  "callsOf r = calls (fst (snd r))"

definition storeOf :: "result \<Rightarrow> Store" where
  "storeOf r = snd (snd r)"

subsection \<open>fetchClasses\<close>

text \<open>
  \<open>if (!user?.schoolId) return;\<close> then one query for the classes of the user's school at or
  after \<open>now\<close> (the text of the clock at that moment), published with \<open>set({ classes })\<close>.
  In \<open>{ id: doc.id, ...doc.data() }\<close> the spread comes last, so the \<open>id\<close> of the data wins:
  the published object is the data of the document.
\<close>

definition fetchClasses :: "string \<Rightarrow> state \<Rightarrow> result" where
  "fetchClasses now = (\<lambda>(fb, st).
     case user st of
       None \<Rightarrow> (Ok, fb, st)
     | Some u \<Rightarrow>
        (case u_schoolId u of
           None \<Rightarrow> (Ok, fb, st)
         | Some sid \<Rightarrow>
            if sid = [] then (Ok, fb, st)
            else
              let qs = [SchoolIdEq sid, DatetimeGe now];
                  snapshot = getDocs qs (classesCol fb)
              in (Ok, logCall (GetDocs ''classes'' qs) fb, st\<lparr>classes := map snd snapshot\<rparr>)))"

subsection \<open>updateClass, deleteClass, enrollInClass, unenrollFromClass\<close>

text \<open>
  The four operations share one shape: read the target, throw if it is absent, then either
  query the series and commit one batch with one write per document found, or write the
  target alone; then refresh the published list. The test \<open>flag && classData.baseId\<close> is a
  truthiness test: \<open>seriesKey\<close> is the \<open>baseId\<close> the query uses when the test passes.
\<close>

definition seriesKey :: "bool \<Rightarrow> Class \<Rightarrow> string option" where
  "seriesKey flag classData =
     (if flag \<and> truthy (baseId classData) then baseId classData else None)"

definition updateClass :: "string \<Rightarrow> string \<Rightarrow> string \<Rightarrow> ClassPatch \<Rightarrow> bool \<Rightarrow> state \<Rightarrow> result" where
  "updateClass now now' classId updatedClass updateRecurring = (\<lambda>(fb, st).
     let fb1 = logCall (GetDoc ''classes'' classId) fb in
     case getDoc (classesCol fb1) classId of
       None \<Rightarrow> (Failed NotFound, fb1, st)
     | Some classData \<Rightarrow>
        (case seriesKey updateRecurring classData of
           Some b \<Rightarrow>
             let qs = [BaseIdEq b, DatetimeGe now];
                 snapshot = getDocs qs (classesCol fb1);
                 fb2 = logCall (GetDocs ''classes'' qs) fb1;
                 batch = map (\<lambda>(k, d). WUpdate k (Fields updatedClass)) snapshot;
                 fb3 = logCall (Commit batch) fb2
             in (case commit batch (classesCol fb3) of
                   None \<Rightarrow> (Failed BackendFailure, fb3, st)
                 | Some col \<Rightarrow> fetchClasses now' (fb3\<lparr>classesCol := col\<rparr>, st))
         | None \<Rightarrow>
             let fb2 = logCall (UpdateDoc ''classes'' classId) fb1
             in (case updateDoc classId (applyUpdate (Fields updatedClass)) (classesCol fb2) of
                   None \<Rightarrow> (Failed BackendFailure, fb2, st)
                 | Some col \<Rightarrow> fetchClasses now' (fb2\<lparr>classesCol := col\<rparr>, st))))"

definition deleteClass :: "string \<Rightarrow> string \<Rightarrow> string \<Rightarrow> bool \<Rightarrow> state \<Rightarrow> result" where
  "deleteClass now now' classId deleteRecurring = (\<lambda>(fb, st).
     let fb1 = logCall (GetDoc ''classes'' classId) fb in
     case getDoc (classesCol fb1) classId of
       None \<Rightarrow> (Failed NotFound, fb1, st)
     | Some classData \<Rightarrow>
        (case seriesKey deleteRecurring classData of
           Some b \<Rightarrow>
             let qs = [BaseIdEq b, DatetimeGe now];
                 snapshot = getDocs qs (classesCol fb1);
                 fb2 = logCall (GetDocs ''classes'' qs) fb1;
                 batch = map (\<lambda>(k, d). WDelete k) snapshot;
                 fb3 = logCall (Commit batch) fb2
             in (case commit batch (classesCol fb3) of
                   None \<Rightarrow> (Failed BackendFailure, fb3, st)
                 | Some col \<Rightarrow> fetchClasses now' (fb3\<lparr>classesCol := col\<rparr>, st))
         | None \<Rightarrow>
             let fb2 = logCall (DeleteDoc ''classes'' classId) fb1
             in fetchClasses now' (fb2\<lparr>classesCol := deleteDoc classId (classesCol fb2)\<rparr>, st)))"

text \<open>
  The two enrollment operations take no clock reading for the series: the lower bound of the
  query is the \<open>datetime\<close> of the target itself. \<open>now'\<close> is the clock of the final refresh.
\<close>

definition enrollment :: "(string \<Rightarrow> update) \<Rightarrow> string \<Rightarrow> string \<Rightarrow> string \<Rightarrow> bool \<Rightarrow> state \<Rightarrow> result" where
  "enrollment transform now' classId userId allFlag = (\<lambda>(fb, st).
     let fb1 = logCall (GetDoc ''classes'' classId) fb in
     case getDoc (classesCol fb1) classId of
       None \<Rightarrow> (Failed NotFound, fb1, st)
     | Some classData \<Rightarrow>
        (case seriesKey allFlag classData of
           Some b \<Rightarrow>
             let qs = [BaseIdEq b, DatetimeGe (datetime classData)];
                 snapshot = getDocs qs (classesCol fb1);
                 fb2 = logCall (GetDocs ''classes'' qs) fb1;
                 batch = map (\<lambda>(k, d). WUpdate k (transform userId)) snapshot;
                 fb3 = logCall (Commit batch) fb2
             in (case commit batch (classesCol fb3) of
                   None \<Rightarrow> (Failed BackendFailure, fb3, st)
                 | Some col \<Rightarrow> fetchClasses now' (fb3\<lparr>classesCol := col\<rparr>, st))
         | None \<Rightarrow>
             let fb2 = logCall (UpdateDoc ''classes'' classId) fb1
             in (case updateDoc classId (applyUpdate (transform userId)) (classesCol fb2) of
                   None \<Rightarrow> (Failed BackendFailure, fb2, st)
                 | Some col \<Rightarrow> fetchClasses now' (fb2\<lparr>classesCol := col\<rparr>, st))))"

definition enrollInClass :: "string \<Rightarrow> string \<Rightarrow> string \<Rightarrow> bool \<Rightarrow> state \<Rightarrow> result" where
  "enrollInClass = enrollment EnrolledUnion"

definition unenrollFromClass :: "string \<Rightarrow> string \<Rightarrow> string \<Rightarrow> bool \<Rightarrow> state \<Rightarrow> result" where
  "unenrollFromClass = enrollment EnrolledRemove"


subsection \<open>addClass\<close>

text \<open>
  What \<open>addClass\<close> takes from outside the store module: the date library (\<open>parseISO\<close>,
  \<open>addYears\<close>, \<open>Date.toISOString\<close>; a \<open>Date\<close> is its number of milliseconds since
  the epoch), the generator of occurrences \<open>generateRecurringDates\<close> of utils/dateUtils (the
  field \<open>recurringDates\<close>), and the two sources of fresh identifiers: \<open>newDocId i\<close> is the
  key of the \<open>i\<close>-th reference made by \<open>doc(collection(db, 'classes'))\<close> during the call,
  and \<open>randomUUID\<close> is the value \<open>crypto.randomUUID()\<close> returns.
\<close>

record env =
  parseISO :: "string \<Rightarrow> int"
  addYears :: "int \<Rightarrow> int \<Rightarrow> int"
  toISOString :: "int \<Rightarrow> string"
  recurringDates :: "int \<Rightarrow> int \<Rightarrow> int list"
  newDocId :: "nat \<Rightarrow> string"
  randomUUID :: string

text \<open>
  The formats of the two kinds of identifier: the store's automatic document key is 20
  characters long, a UUID is 36 characters long.
\<close>

definition isAutoId :: "string \<Rightarrow> bool" where
  "isAutoId s = (length s = 20)"

definition isUUID :: "string \<Rightarrow> bool" where
  "isUUID s = (length s = 36)"

text \<open>
  The document that \<open>dates.forEach((date, index) => batch.set(...))\<close> writes for one
  date: the data of the class with its own key as \<open>id\<close>, the date as text, and \<open>baseId\<close>
  \<open>null\<close> at index 0 and the UUID elsewhere. The reference made before the loop has
  number 0, so the reference of index \<open>index\<close> has number \<open>Suc index\<close>.
\<close>

definition occurrence :: "env \<Rightarrow> Class \<Rightarrow> nat \<Rightarrow> int \<Rightarrow> Class" where
  "occurrence env classData index date =
     classData\<lparr> cid := newDocId env (Suc index),
                datetime := toISOString env date,
                baseId := (if index = 0 then None else Some (randomUUID env)) \<rparr>"

definition recurringBatch :: "env \<Rightarrow> Class \<Rightarrow> int list \<Rightarrow> batchWrite list" where
  "recurringBatch env classData dates =
     map (\<lambda>(index, date). WSet (newDocId env (Suc index)) (occurrence env classData index date))
       (enumerate 0 dates)"

text \<open>
  \<open>newClass\<close> has the type \<open>Omit<Class, 'id'>\<close>: its field \<open>cid\<close> is not read, it is
  overwritten with the key of the new reference.
\<close>

definition addClass :: "env \<Rightarrow> string \<Rightarrow> Class \<Rightarrow> state \<Rightarrow> result" where
  "addClass env now' newClass = (\<lambda>(fb, st).
     let classRefId = newDocId env 0;
         classData = newClass\<lparr>cid := classRefId\<rparr>
     in if isRecurring newClass then
          let startDate = parseISO env (datetime newClass);
              endDate = addYears env startDate 1;
              dates = recurringDates env startDate endDate;
              batch = recurringBatch env classData dates;
              fb1 = logCall (Commit batch) fb
          in (case commit batch (classesCol fb1) of
                None \<Rightarrow> (Failed BackendFailure, fb1, st)
              | Some col \<Rightarrow> fetchClasses now' (fb1\<lparr>classesCol := col\<rparr>, st))
        else
          let fb1 = logCall (SetDoc ''classes'' classRefId) fb
          in fetchClasses now'
               (fb1\<lparr>classesCol := setDoc classRefId classData (classesCol fb1)\<rparr>, st))"

subsection \<open>updateProfile\<close>

text \<open>The argument of \<open>updateProfile\<close>: \<open>currentPassword\<close> and \<open>newPassword\<close> are optional.\<close>

record ProfileData =
  d_name :: string
  d_email :: string
  d_currentPassword :: "string option"
  d_newPassword :: "string option"

text \<open>
  The last two steps of \<open>updateProfile\<close>: \<open>updateDoc(userRef, updates)\<close> and
  \<open>set({ user: { ...user, ...updates } })\<close>, where \<open>updates\<close> holds the name and, when the
  email changed, the email.
\<close>

definition applyUpdates :: "string \<Rightarrow> string option \<Rightarrow> User \<Rightarrow> User" where
  "applyUpdates name emailUpdate u =
     u\<lparr> u_name := name,
        u_email := (case emailUpdate of None \<Rightarrow> u_email u | Some e \<Rightarrow> e) \<rparr>"

definition saveProfile :: "User \<Rightarrow> string \<Rightarrow> string option \<Rightarrow> state \<Rightarrow> result" where
  "saveProfile u name emailUpdate = (\<lambda>(fb, st).
     let fb1 = logCall (UpdateDoc ''users'' (u_id u)) fb
     in case updateDoc (u_id u) (applyUpdates name emailUpdate) (usersCol fb1) of
          None \<Rightarrow> (Failed BackendFailure, fb1, st)
        | Some col \<Rightarrow>
            (Ok, fb1\<lparr>usersCol := col\<rparr>, st\<lparr>user := Some (applyUpdates name emailUpdate u)\<rparr>))"

text \<open>
  The identity service accepts the credential made of the account's email and
  \<open>currentPassword\<close> when the password is the account's; it throws otherwise.
\<close>

definition updateProfile :: "ProfileData \<Rightarrow> state \<Rightarrow> result" where
  "updateProfile data = (\<lambda>(fb, st).
     case user st of
       None \<Rightarrow> (Failed Unauthenticated, fb, st)
     | Some u \<Rightarrow>
        (case currentUser fb of
           None \<Rightarrow> (Failed Unauthenticated, fb, st)
         | Some au \<Rightarrow>
            if d_email data \<noteq> u_email u \<or> truthy (d_newPassword data) then
              if \<not> truthy (d_currentPassword data) then (Failed ValidationFailure, fb, st)
              else
                let fb1 = logCall Reauthenticate fb in
                if d_currentPassword data \<noteq> Some (a_password au)
                then (Failed BackendFailure, fb1, st)
                else
                  let fb2 = (if d_email data \<noteq> u_email u
                             then (logCall UpdateEmail fb1)
                                    \<lparr>currentUser := Some (au\<lparr>a_email := d_email data\<rparr>)\<rparr>
                             else fb1);
                      emailUpdate = (if d_email data \<noteq> u_email u then Some (d_email data)
                                     else None);
                      fb3 = (case d_newPassword data of
                               None \<Rightarrow> fb2
                             | Some np \<Rightarrow>
                                 if np = [] then fb2
                                 else (logCall UpdatePassword fb2)
                                        \<lparr>currentUser :=
                                           map_option (\<lambda>a. a\<lparr>a_password := np\<rparr>) (currentUser fb2)\<rparr>)
                  in saveProfile u (d_name data) emailUpdate (fb3, st)
            else saveProfile u (d_name data) None (fb, st)))"

section \<open>The callers (components/ClassCard.tsx, components/UserProfile.tsx)\<close>

subsection \<open>ClassCard\<close>

definition isEnrolled :: "User option \<Rightarrow> Class \<Rightarrow> bool" where
  "isEnrolled usr classData =
     (case usr of None \<Rightarrow> False | Some u \<Rightarrow> u_id u \<in> set (enrolledStudents classData))"

definition isFull :: "Class \<Rightarrow> bool" where
  "isFull classData = (maxStudents classData \<le> int (length (enrolledStudents classData)))"

text \<open>The \<open>disabled\<close> attribute of the enrollment button of the card.\<close>

definition enrollDisabled :: "User option \<Rightarrow> Class \<Rightarrow> bool \<Rightarrow> bool" where
  "enrollDisabled usr classData loading =
     ((\<not> isEnrolled usr classData \<and> isFull classData) \<or> loading)"

text \<open>
  \<open>handleEnrollment(enrollAll)\<close> of the card that shows \<open>classData\<close>. The call
  \<open>unenrollFromClass(classData.id, user.id)\<close> has no third argument: the flag is
  \<open>undefined\<close>, which is falsy.
\<close>

definition handleEnrollment :: "string \<Rightarrow> Class \<Rightarrow> bool \<Rightarrow> state \<Rightarrow> result" where
  "handleEnrollment now' classData enrollAll = (\<lambda>(fb, st).
     case user st of
       None \<Rightarrow> (Ok, fb, st)
     | Some u \<Rightarrow>
        if isEnrolled (user st) classData
        then unenrollFromClass now' (cid classData) (u_id u) False (fb, st)
        else enrollInClass now' (cid classData) (u_id u) enrollAll (fb, st))"

text \<open>
  \<open>ClassFormData\<close> (src/types/index.ts), and the object
  \<open>{ ...formData, teacherId: user?.id }\<close> that \<open>handleUpdate\<close> of the card passes to
  \<open>updateClass\<close> for a signed-in user: the \<open>datetime\<close> of the form goes into the patch as
  the text it is.
\<close>

record ClassFormData =
  f_title :: string
  f_datetime :: string
  f_duration :: int
  f_maxStudents :: int
  f_isRecurring :: bool
  f_level :: level
  f_description :: "string option"

definition formPatch :: "User \<Rightarrow> ClassFormData \<Rightarrow> ClassPatch" where
  "formPatch u formData =
     \<lparr> p_cid = None, p_title = Some (f_title formData), p_teacherId = Some (u_id u),
       p_datetime = Some (f_datetime formData), p_duration = Some (f_duration formData),
       p_maxStudents = Some (f_maxStudents formData), p_enrolledStudents = None,
       p_isRecurring = Some (f_isRecurring formData), p_level = Some (f_level formData),
       p_description = f_description formData, p_baseId = None, p_schoolId = None \<rparr>"

subsection \<open>The schema of the profile form\<close>

record ProfileInputs =
  i_name :: string
  i_email :: string
  i_currentPassword :: "string option"
  i_newPassword :: "string option"
  i_confirmPassword :: "string option"

text \<open>The issues of \<open>superRefine\<close>, named by the path each is added at.\<close>

datatype issue = CurrentPasswordIssue | NewPasswordIssue | ConfirmPasswordIssue

definition superRefine :: "string \<Rightarrow> ProfileInputs \<Rightarrow> issue list" where
  "superRefine initialEmail data =
     (if (i_email data \<noteq> initialEmail \<or> truthy (i_newPassword data))
         \<and> \<not> truthy (i_currentPassword data)
      then [CurrentPasswordIssue] else []) @
     (case i_newPassword data of
        None \<Rightarrow> []
      | Some np \<Rightarrow>
          if np = [] then []
          else (if length np < 6 then [NewPasswordIssue] else []) @
               (if i_newPassword data \<noteq> i_confirmPassword data then [ConfirmPasswordIssue]
                else []))"

section \<open>The instant a datetime text denotes\<close>

text \<open>
  The instant, in milliseconds since the epoch, of an ISO 8601 text of the form
  \<open>YYYY-MM-DDTHH:mm:ss.sss\<close> followed by \<open>Z\<close> or by an offset \<open>+HH:mm\<close> or \<open>-HH:mm\<close>,
  as \<open>parseISO\<close> and \<open>new Date\<close> read it; the days are counted in the proleptic Gregorian
  calendar. A text of another form has no instant here. The store never computes an
  instant: its queries compare the texts. The definition says what "before" and "at or
  after" mean in time for the classes of the examples.
\<close>

definition isDigit :: "char \<Rightarrow> bool" where
  "isDigit c = (CHR ''0'' \<le> c \<and> c \<le> CHR ''9'')"

definition digitAt :: "string \<Rightarrow> nat \<Rightarrow> int" where
  "digitAt s i = int (of_char (s ! i)) - 48"

definition num2 :: "string \<Rightarrow> nat \<Rightarrow> int" where
  "num2 s i = digitAt s i * 10 + digitAt s (i + 1)"

definition num3 :: "string \<Rightarrow> nat \<Rightarrow> int" where
  "num3 s i = digitAt s i * 100 + num2 s (i + 1)"

definition num4 :: "string \<Rightarrow> nat \<Rightarrow> int" where
  "num4 s i = num2 s i * 100 + num2 s (i + 2)"

definition daysFromCivil :: "int \<Rightarrow> int \<Rightarrow> int \<Rightarrow> int" where
  "daysFromCivil y m d =
     (let y' = (if m \<le> 2 then y - 1 else y);
          era = y' div 400;
          yoe = y' - era * 400;
          mp = (m + 9) mod 12;
          doy = (153 * mp + 2) div 5 + d - 1;
          doe = yoe * 365 + yoe div 4 - yoe div 100 + doy
      in era * 146097 + doe - 719468)"

definition zoneOffsetMs :: "string \<Rightarrow> int option" where
  "zoneOffsetMs z =
     (if z = ''Z'' then Some 0
      else if length z = 6 \<and> (z ! 0 = CHR ''+'' \<or> z ! 0 = CHR ''-'') \<and> z ! 3 = CHR '':''
              \<and> list_all isDigit [z ! 1, z ! 2, z ! 4, z ! 5]
      then Some ((if z ! 0 = CHR ''-'' then - 1 else 1) * (num2 z 1 * 60 + num2 z 4) * 60000)
      else None)"

definition instantOf :: "string \<Rightarrow> int option" where
  "instantOf s =
     (if 24 \<le> length s \<and> s ! 4 = CHR ''-'' \<and> s ! 7 = CHR ''-'' \<and> s ! 10 = CHR ''T''
         \<and> s ! 13 = CHR '':'' \<and> s ! 16 = CHR '':'' \<and> s ! 19 = CHR ''.''
         \<and> list_all isDigit (take 4 s @ take 2 (drop 5 s) @ take 2 (drop 8 s) @ take 2 (drop 11 s)
               @ take 2 (drop 14 s) @ take 2 (drop 17 s) @ take 3 (drop 20 s))
      then (case zoneOffsetMs (drop 23 s) of
              None \<Rightarrow> None
            | Some off \<Rightarrow>
                Some ((((daysFromCivil (num4 s 0) (num2 s 5) (num2 s 8) * 24 + num2 s 11) * 60
                          + num2 s 14) * 60 + num2 s 17) * 1000 + num3 s 20 - off))
      else None)"


section \<open>The generator of occurrences\<close>

text \<open>
  Modelled from the spec: \<open>generateRecurringDates\<close> of utils/dateUtils, which the store
  imports and whose source is not part of the repository's files at hand. The
  specification (4.1) gives its contract: one occurrence per week, starting at \<open>start\<close>
  and continuing while the computed instant is strictly before \<open>horizonEnd\<close>. Instants
  are milliseconds since the epoch; a week is seven days of 24 hours.
\<close>

definition weekMs :: int where
  "weekMs = 7 * 24 * 60 * 60 * 1000"

function generateRecurringDates :: "int \<Rightarrow> int \<Rightarrow> int list" where
  "generateRecurringDates start horizonEnd =
     (if start < horizonEnd
      then start # generateRecurringDates (start + weekMs) horizonEnd
      else [])"
  by pat_completeness auto
termination
  by (relation "measure (\<lambda>(start, horizonEnd). nat (horizonEnd - start))")
     (auto simp: weekMs_def)

text \<open>The defining equation recurs on its own right-hand side: it is unfolded by hand.\<close>

declare generateRecurringDates.simps [simp del]

section \<open>Auxiliary definitions\<close>

text \<open>
  The keys and documents that the batch of \<open>addClass\<close> sets, listed by index: the same
  pairs as in \<open>recurringBatch\<close> (\<open>recurringBatch_sets\<close> below), in a form that names the
  date of each index.
\<close>

definition written :: "env \<Rightarrow> Class \<Rightarrow> int list \<Rightarrow> (string \<times> Class) list" where
  "written env classData dates =
     map (\<lambda>i. (newDocId env (Suc i), occurrence env classData i (dates ! i))) [0..<length dates]"

section \<open>Example states\<close>

text \<open>
  A school with one series of four weekly classes (the first occurrence carries no
  \<open>baseId\<close>), a signed-in student, and the store before any refresh. The theorems below are
  run on these values.
\<close>

definition exSeries :: string where
  "exSeries = ''3f2a6c1e-8d47-4b52-9e0a-5c7d1f9a2b64''"

definition exClass :: "string \<Rightarrow> string \<Rightarrow> string option \<Rightarrow> string list \<Rightarrow> Class" where
  "exClass k dt b enrolled =
     \<lparr> cid = k, title = ''Pole debutant'', teacherId = ''t1'', datetime = dt, duration = 60,
       maxStudents = 2, enrolledStudents = enrolled, isRecurring = True, level = beginner,
       description = None, baseId = b, schoolId = ''s1'' \<rparr>"

definition exClasses :: "Class collection" where
  "exClasses =
     [(''c1'', exClass ''c1'' ''2025-01-06T18:00:00.000Z'' None []),
      (''c2'', exClass ''c2'' ''2025-01-13T18:00:00.000Z'' (Some exSeries) [''u2'']),
      (''c3'', exClass ''c3'' ''2025-01-20T18:00:00.000Z'' (Some exSeries) []),
      (''c4'', exClass ''c4'' ''2025-01-27T18:00:00.000Z'' (Some exSeries) [''u2'', ''u3''])]"

definition exUser :: User where
  "exUser = \<lparr> u_id = ''u1'', u_email = ''ada@example.org'', u_name = ''Ada'', u_role = student,
              u_schoolId = Some ''s1'' \<rparr>"

definition exFirebase :: firebase where
  "exFirebase =
     \<lparr> classesCol = exClasses, usersCol = [(''u1'', exUser)],
       currentUser = Some \<lparr> a_email = ''ada@example.org'', a_password = ''secret1'' \<rparr>,
       calls = [] \<rparr>"

definition exStore :: Store where
  "exStore = \<lparr> user = Some exUser, school = None, classes = [], isLoading = False \<rparr>"

text \<open>
  The empty partial object, and a patch that changes the title and the level.
\<close>

definition emptyPatch :: ClassPatch where
  "emptyPatch =
     \<lparr> p_cid = None, p_title = None, p_teacherId = None, p_datetime = None, p_duration = None,
       p_maxStudents = None, p_enrolledStudents = None, p_isRecurring = None, p_level = None,
       p_description = None, p_baseId = None, p_schoolId = None \<rparr>"

definition exPatch :: ClassPatch where
  "exPatch = emptyPatch\<lparr>p_title := Some ''Pole avance'', p_level := Some advanced\<rparr>"

text \<open>
  Two classes whose \<open>baseId\<close> is the empty text: a value of the type \<open>string | null\<close> that
  is not \<open>null\<close> and that the test \<open>flag && classData.baseId\<close> rejects. The store's
  own \<open>updateClass\<close> writes it when its partial object carries \<open>baseId: ''\<close>
  (\<open>exLoose_reachable\<close> below).
\<close>

definition exLooseClasses :: "Class collection" where
  "exLooseClasses =
     [(''x1'', exClass ''x1'' ''2025-03-03T18:00:00.000Z'' (Some []) []),
      (''x2'', exClass ''x2'' ''2025-03-10T18:00:00.000Z'' (Some []) [])]"

definition exLoose :: firebase where
  "exLoose = exFirebase\<lparr>classesCol := exLooseClasses\<rparr>"

text \<open>
  The values of the profile form as it opens (every password field is the empty text), and
  an argument of \<open>updateProfile\<close> that changes nothing.
\<close>

definition exInputs :: ProfileInputs where
  "exInputs = \<lparr> i_name = ''Ada'', i_email = ''ada@example.org'', i_currentPassword = Some [],
                i_newPassword = Some [], i_confirmPassword = Some [] \<rparr>"

definition exData :: ProfileData where
  "exData = \<lparr> d_name = ''Ada'', d_email = ''ada@example.org'', d_currentPassword = None,
              d_newPassword = None \<rparr>"

text \<open>
  An environment for \<open>addClass\<close>: a start that parses to 6 January 2025, 18:00 UTC, a
  year of 365 days, the generator of occurrences modelled above, document keys of 20
  characters that differ in their last two digits, and one UUID. The dates are printed for
  the three instants the theorems look at.
\<close>

definition exEnv :: env where
  "exEnv =
     \<lparr> parseISO = (\<lambda>s. 1736186400000),
       addYears = (\<lambda>d n. d + n * 31536000000),
       toISOString = (\<lambda>d. if d = 1736186400000 then ''2025-01-06T18:00:00.000Z''
                           else if d = 1736791200000 then ''2025-01-13T18:00:00.000Z''
                           else if d = 1767636000000 then ''2026-01-05T18:00:00.000Z''
                           else ''2025-06-30T18:00:00.000Z''),
       recurringDates = generateRecurringDates,
       newDocId = (\<lambda>i. ''r0Kq7ZbT2mXw9LdPv4'' @
                          [''0123456789'' ! (i div 10), ''0123456789'' ! (i mod 10)]),
       randomUUID = exSeries \<rparr>"

definition exNewClass :: Class where
  "exNewClass = exClass [] ''2025-01-06T18:00:00.000Z'' None []"

text \<open>
  The series of \<open>exClasses\<close> after a teacher has saved the form of two of its classes with
  a \<open>datetime\<close> written with an offset (\<open>exZoned_reachable\<close> below): the third class is
  at 13:00 UTC on 20 January 2025, written \<open>18:00+05:00\<close>, and the fourth at 18:00 UTC on
  the same day, written \<open>10:00-08:00\<close>.
\<close>

definition exTeacher :: User where
  "exTeacher = \<lparr> u_id = ''t1'', u_email = ''grace@example.org'', u_name = ''Grace'',
                 u_role = teacher, u_schoolId = Some ''s1'' \<rparr>"

definition exForm :: "string \<Rightarrow> ClassFormData" where
  "exForm dt = \<lparr> f_title = ''Pole debutant'', f_datetime = dt, f_duration = 60, f_maxStudents = 2,
                 f_isRecurring = True, f_level = beginner, f_description = None \<rparr>"

definition exZonedClasses :: "Class collection" where
  "exZonedClasses =
     [(''c1'', exClass ''c1'' ''2025-01-06T18:00:00.000Z'' None []),
      (''c2'', exClass ''c2'' ''2025-01-13T18:00:00.000Z'' (Some exSeries) [''u2'']),
      (''c3'', exClass ''c3'' ''2025-01-20T18:00:00.000+05:00'' (Some exSeries) []),
      (''c4'', exClass ''c4'' ''2025-01-20T10:00:00.000-08:00'' (Some exSeries) [''u2'', ''u3''])]"

definition exZoned :: firebase where
  "exZoned = exFirebase\<lparr>classesCol := exZonedClasses\<rparr>"

section \<open>Lemmas on the store primitives\<close>


lemma keys_getDoc: "k \<in> set (map fst col) \<longleftrightarrow> getDoc col k \<noteq> None"
  by (simp add: getDoc_def map_of_eq_None_iff)

lemma map_of_update_all:
  "map_of (map (\<lambda>(k', d'). if k' = k then (k', f d') else (k', d')) col) k' =
   (if k' = k then map_option f (map_of col k) else map_of col k')"
  by (induction col) auto

lemma getDoc_updateDoc:
  "updateDoc k f col = Some col' \<Longrightarrow>
   getDoc col' k' = (if k' = k then map_option f (getDoc col k) else getDoc col k')"
  unfolding updateDoc_def getDoc_def
  by (auto split: if_splits simp: map_of_update_all simp del: set_map)

lemma getDoc_deleteDoc:
  "getDoc (deleteDoc k col) k' = (if k' = k then None else getDoc col k')"
  unfolding deleteDoc_def getDoc_def
  by (induction col) auto

lemma keys_updateDoc: "updateDoc k f col = Some col' \<Longrightarrow> map fst col' = map fst col"
  unfolding updateDoc_def by (auto split: if_splits)

lemma updateDoc_None_iff: "updateDoc k f col = None \<longleftrightarrow> getDoc col k = None"
  unfolding updateDoc_def using keys_getDoc[of k col] by auto

lemma getDocs_keys:
  "wf_collection col \<Longrightarrow>
   k \<in> set (map fst (getDocs qs col)) \<longleftrightarrow>
   (case getDoc col k of None \<Rightarrow> False | Some d \<Rightarrow> list_all (\<lambda>q. holds q d) qs)"
  unfolding wf_collection_def getDocs_def getDoc_def
  by (induction col) (auto split: option.splits simp: map_of_eq_None_iff image_iff)

lemma getDocs_distinct: "wf_collection col \<Longrightarrow> distinct (map fst (getDocs qs col))"
  unfolding wf_collection_def getDocs_def by (simp add: distinct_map_filter)

lemma getDocs_subset: "set (map fst (getDocs qs col)) \<subseteq> set (map fst col)"
  unfolding getDocs_def by auto

lemma commit_updates:
  "set ks \<subseteq> set (map fst col) \<Longrightarrow> distinct ks \<Longrightarrow>
   \<exists>col'. commit (map (\<lambda>k. WUpdate k u) ks) col = Some col' \<and> map fst col' = map fst col \<and>
     (\<forall>k'. getDoc col' k' =
        (if k' \<in> set ks then map_option (applyUpdate u) (getDoc col k') else getDoc col k'))"
proof (induction ks arbitrary: col)
  case Nil
  then show ?case by simp
next
  case (Cons k ks)
  from Cons.prems have "k \<in> set (map fst col)" by simp
  then obtain col1 where u: "updateDoc k (applyUpdate u) col = Some col1"
    unfolding updateDoc_def by auto
  have keys1: "map fst col1 = map fst col" using u by (rule keys_updateDoc)
  with Cons.prems have "set ks \<subseteq> set (map fst col1)" "distinct ks" by auto
  from Cons.IH[OF this] obtain col' where
    c: "commit (map (\<lambda>k. WUpdate k u) ks) col1 = Some col'" and
    k: "map fst col' = map fst col1" and
    g: "\<forall>k'. getDoc col' k' =
        (if k' \<in> set ks then map_option (applyUpdate u) (getDoc col1 k') else getDoc col1 k')"
    by blast
  have "commit (map (\<lambda>k. WUpdate k u) (k # ks)) col = Some col'"
    using u c by simp
  moreover have "map fst col' = map fst col" using k keys1 by simp
  moreover have "\<forall>k'. getDoc col' k' =
        (if k' \<in> set (k # ks) then map_option (applyUpdate u) (getDoc col k') else getDoc col k')"
    using g getDoc_updateDoc[OF u] Cons.prems(2) by auto
  ultimately show ?case by blast
qed



lemma batch_keys:
  "map (\<lambda>(k, d). f k) snapshot = map f (map fst snapshot)"
  by (induction snapshot) auto

lemma commit_series_update:
  assumes "wf_collection col"
  shows "\<exists>col'. commit (map (\<lambda>(k, d). WUpdate k u) (getDocs qs col)) col = Some col' \<and>
     map fst col' = map fst col \<and>
     (\<forall>k. getDoc col' k =
        (case getDoc col k of None \<Rightarrow> None
         | Some d \<Rightarrow> if list_all (\<lambda>q. holds q d) qs then Some (applyUpdate u d) else Some d))"
proof -
  let ?ks = "map fst (getDocs qs col)"
  have "set ?ks \<subseteq> set (map fst col)" by (rule getDocs_subset)
  moreover have "distinct ?ks" using assms by (rule getDocs_distinct)
  ultimately obtain col' where
    c: "commit (map (\<lambda>k. WUpdate k u) ?ks) col = Some col'" and
    k: "map fst col' = map fst col" and
    g: "\<forall>k'. getDoc col' k' =
        (if k' \<in> set ?ks then map_option (applyUpdate u) (getDoc col k') else getDoc col k')"
    using commit_updates[of ?ks col u] by blast
  have "commit (map (\<lambda>(k, d). WUpdate k u) (getDocs qs col)) col = Some col'"
    using c by (simp add: batch_keys[of "\<lambda>k. WUpdate k u"])
  moreover have "\<forall>k. getDoc col' k =
        (case getDoc col k of None \<Rightarrow> None
         | Some d \<Rightarrow> if list_all (\<lambda>q. holds q d) qs then Some (applyUpdate u d) else Some d)"
  proof
    fix k
    show "getDoc col' k =
        (case getDoc col k of None \<Rightarrow> None
         | Some d \<Rightarrow> if list_all (\<lambda>q. holds q d) qs then Some (applyUpdate u d) else Some d)"
      using g getDocs_keys[OF assms, of k qs] by (auto split: option.splits)
  qed
  ultimately show ?thesis using k by blast
qed


lemma fetchClasses_outcome: "outcomeOf (fetchClasses now (fb, st)) = Ok"
  by (simp add: fetchClasses_def outcomeOf_def Let_def split: option.splits)

lemma fetchClasses_docs: "classDocs (fetchClasses now (fb, st)) = classesCol fb"
  by (simp add: fetchClasses_def classDocs_def Let_def logCall_def split: option.splits)

lemma fetchClasses_writes: "writesOf (callsOf (fetchClasses now (fb, st))) = writesOf (calls fb)"
  by (simp add: fetchClasses_def callsOf_def writesOf_def isWrite_def Let_def logCall_def
      split: option.splits)

lemma seriesKey_Some:
  "seriesKey flag c = Some b \<longleftrightarrow> flag \<and> truthy (baseId c) \<and> baseId c = Some b"
  by (auto simp: seriesKey_def)

lemma seriesKey_None: "seriesKey flag c = None \<longleftrightarrow> \<not> (flag \<and> truthy (baseId c))"
  by (auto simp: seriesKey_def truthy_def split: option.splits)


lemma classesCol_logCall [simp]: "classesCol (logCall c fb) = classesCol fb"
  by (simp add: logCall_def)

lemma calls_logCall [simp]: "calls (logCall c fb) = calls fb @ [c]"
  by (simp add: logCall_def)

lemma writesOf_append [simp]: "writesOf (xs @ ys) = writesOf xs @ writesOf ys"
  by (simp add: writesOf_def)



lemma updateClass_single:
  assumes c: "getDoc (classesCol fb) classId = Some c"
    and b: "seriesKey flag c = None"
  shows "outcomeOf (updateClass now now' classId p flag (fb, st)) = Ok \<and>
     (\<forall>k. getDoc (classDocs (updateClass now now' classId p flag (fb, st))) k =
        (if k = classId then Some (applyPatch p c) else getDoc (classesCol fb) k)) \<and>
     writesOf (callsOf (updateClass now now' classId p flag (fb, st))) =
       writesOf (calls fb) @ [UpdateDoc ''classes'' classId]"
proof -
  let ?fb2 = "logCall (UpdateDoc ''classes'' classId) (logCall (GetDoc ''classes'' classId) fb)"
  from c have "updateDoc classId (applyUpdate (Fields p)) (classesCol fb) \<noteq> None"
    by (simp add: updateDoc_None_iff)
  then obtain col' where u: "updateDoc classId (applyUpdate (Fields p)) (classesCol fb) = Some col'"
    by blast
  have r: "updateClass now now' classId p flag (fb, st) =
           fetchClasses now' (?fb2\<lparr>classesCol := col'\<rparr>, st)"
    using c b u by (simp add: updateClass_def Let_def)
  have "writesOf (calls (?fb2\<lparr>classesCol := col'\<rparr>)) =
        writesOf (calls fb) @ [UpdateDoc ''classes'' classId]"
    by (simp add: writesOf_def isWrite_def)
  then show ?thesis
    unfolding r fetchClasses_outcome fetchClasses_docs fetchClasses_writes
    using getDoc_updateDoc[OF u] c by simp
qed




lemma deleteClass_single:
  assumes c: "getDoc (classesCol fb) classId = Some c"
    and b: "seriesKey flag c = None"
  shows "outcomeOf (deleteClass now now' classId flag (fb, st)) = Ok \<and>
     (\<forall>k. getDoc (classDocs (deleteClass now now' classId flag (fb, st))) k =
        (if k = classId then None else getDoc (classesCol fb) k)) \<and>
     writesOf (callsOf (deleteClass now now' classId flag (fb, st))) =
       writesOf (calls fb) @ [DeleteDoc ''classes'' classId]"
proof -
  let ?fb2 = "logCall (DeleteDoc ''classes'' classId) (logCall (GetDoc ''classes'' classId) fb)"
  have r: "deleteClass now now' classId flag (fb, st) =
           fetchClasses now' (?fb2\<lparr>classesCol := deleteDoc classId (classesCol fb)\<rparr>, st)"
    using c b by (simp add: deleteClass_def Let_def)
  have "writesOf (calls (?fb2\<lparr>classesCol := deleteDoc classId (classesCol fb)\<rparr>)) =
        writesOf (calls fb) @ [DeleteDoc ''classes'' classId]"
    by (simp add: writesOf_def isWrite_def)
  then show ?thesis
    unfolding r fetchClasses_outcome fetchClasses_docs fetchClasses_writes
    by (simp add: getDoc_deleteDoc)
qed

lemma enrollment_NotFound:
  assumes "getDoc (classesCol fb) classId = None"
  shows "enrollment tr now' classId userId flag (fb, st) =
         (Failed NotFound, logCall (GetDoc ''classes'' classId) fb, st)"
  using assms by (simp add: enrollment_def Let_def)

lemma enrollment_series:
  assumes wf: "wf_collection (classesCol fb)"
    and c: "getDoc (classesCol fb) classId = Some c"
    and b: "seriesKey flag c = Some b"
  shows "outcomeOf (enrollment tr now' classId userId flag (fb, st)) = Ok \<and>
     (\<forall>k. getDoc (classDocs (enrollment tr now' classId userId flag (fb, st))) k =
        (case getDoc (classesCol fb) k of None \<Rightarrow> None
         | Some d \<Rightarrow> if baseId d = Some b \<and> datetime c \<le> datetime d
                     then Some (applyUpdate (tr userId) d) else Some d)) \<and>
     writesOf (callsOf (enrollment tr now' classId userId flag (fb, st))) =
       writesOf (calls fb) @
       [Commit (map (\<lambda>(k, d). WUpdate k (tr userId))
                 (getDocs [BaseIdEq b, DatetimeGe (datetime c)] (classesCol fb)))]"
proof -
  let ?qs = "[BaseIdEq b, DatetimeGe (datetime c)]"
  let ?batch = "map (\<lambda>(k, d). WUpdate k (tr userId)) (getDocs ?qs (classesCol fb))"
  let ?fb3 = "logCall (Commit ?batch) (logCall (GetDocs ''classes'' ?qs)
                (logCall (GetDoc ''classes'' classId) fb))"
  obtain col' where
    cm: "commit ?batch (classesCol fb) = Some col'" and
    g: "\<forall>k. getDoc col' k =
        (case getDoc (classesCol fb) k of None \<Rightarrow> None
         | Some d \<Rightarrow> if list_all (\<lambda>q. holds q d) ?qs then Some (applyUpdate (tr userId) d) else Some d)"
    using commit_series_update[OF wf, of "tr userId" ?qs] by blast
  have r: "enrollment tr now' classId userId flag (fb, st) =
           fetchClasses now' (?fb3\<lparr>classesCol := col'\<rparr>, st)"
    using c b cm by (simp add: enrollment_def Let_def)
  have "writesOf (calls (?fb3\<lparr>classesCol := col'\<rparr>)) = writesOf (calls fb) @ [Commit ?batch]"
    by (simp add: writesOf_def isWrite_def)
  then show ?thesis
    unfolding r fetchClasses_outcome fetchClasses_docs fetchClasses_writes
    using g by (simp split: option.splits)
qed

lemma enrollment_single:
  assumes c: "getDoc (classesCol fb) classId = Some c"
    and b: "seriesKey flag c = None"
  shows "outcomeOf (enrollment tr now' classId userId flag (fb, st)) = Ok \<and>
     (\<forall>k. getDoc (classDocs (enrollment tr now' classId userId flag (fb, st))) k =
        (if k = classId then Some (applyUpdate (tr userId) c) else getDoc (classesCol fb) k)) \<and>
     writesOf (callsOf (enrollment tr now' classId userId flag (fb, st))) =
       writesOf (calls fb) @ [UpdateDoc ''classes'' classId]"
proof -
  let ?fb2 = "logCall (UpdateDoc ''classes'' classId) (logCall (GetDoc ''classes'' classId) fb)"
  from c have "updateDoc classId (applyUpdate (tr userId)) (classesCol fb) \<noteq> None"
    by (simp add: updateDoc_None_iff)
  then obtain col' where u: "updateDoc classId (applyUpdate (tr userId)) (classesCol fb) = Some col'"
    by blast
  have r: "enrollment tr now' classId userId flag (fb, st) =
           fetchClasses now' (?fb2\<lparr>classesCol := col'\<rparr>, st)"
    using c b u by (simp add: enrollment_def Let_def)
  have "writesOf (calls (?fb2\<lparr>classesCol := col'\<rparr>)) =
        writesOf (calls fb) @ [UpdateDoc ''classes'' classId]"
    by (simp add: writesOf_def isWrite_def)
  then show ?thesis
    unfolding r fetchClasses_outcome fetchClasses_docs fetchClasses_writes
    using getDoc_updateDoc[OF u] c by simp
qed


lemma arrayUnion_member: "x \<in> set xs \<Longrightarrow> arrayUnion x xs = xs"
  by (simp add: arrayUnion_def)

lemma arrayRemove_absent: "x \<notin> set xs \<Longrightarrow> arrayRemove x xs = xs"
  unfolding arrayRemove_def by (induction xs) auto

lemma enrollment_docs:
  assumes wf: "wf_collection (classesCol fb)" and d: "getDoc (classesCol fb) k = Some d"
  shows "getDoc (classDocs (enrollment tr now' classId userId flag (fb, st))) k = Some d \<or>
         getDoc (classDocs (enrollment tr now' classId userId flag (fb, st))) k =
           Some (applyUpdate (tr userId) d)"
proof (cases "getDoc (classesCol fb) classId")
  case None
  then show ?thesis using d by (simp add: enrollment_NotFound classDocs_def)
next
  case (Some c)
  show ?thesis
  proof (cases "seriesKey flag c")
    case None
    from enrollment_single[OF Some None, of tr now' userId st] d Some show ?thesis by auto
  next
    case (Some b)
    from enrollment_series[OF wf \<open>getDoc (classesCol fb) classId = Some c\<close> Some, of tr now' userId st] d
    show ?thesis by auto
  qed
qed

lemma getDoc_setDoc:
  "getDoc (setDoc k d col) k' = (if k' = k then Some d else getDoc col k')"
proof (cases "k \<in> set (map fst col)")
  case True
  then obtain y where y: "map_of col k = Some y"
    using keys_getDoc[of k col] by (auto simp: getDoc_def)
  have "map_of (map (\<lambda>(k', d'). if k' = k then (k', (\<lambda>_. d) d') else (k', d')) col) k' =
        (if k' = k then map_option (\<lambda>_. d) (map_of col k) else map_of col k')"
    by (rule map_of_update_all)
  with y have "map_of (map (\<lambda>(k', d'). if k' = k then (k', d) else (k', d')) col) k' =
        (if k' = k then Some d else map_of col k')" by simp
  with True show ?thesis unfolding setDoc_def getDoc_def by (simp only: if_True)
next
  case False
  then have "map_of col k = None" using keys_getDoc[of k col] by (simp add: getDoc_def)
  with False show ?thesis unfolding setDoc_def getDoc_def
    by (simp add: map_add_def split: option.splits)
qed

lemma commit_sets:
  "\<exists>col'. commit (map (\<lambda>(k, d). WSet k d) kds) col = Some col' \<and>
     (\<forall>k. getDoc col' k = (case map_of (rev kds) k of None \<Rightarrow> getDoc col k | Some d \<Rightarrow> Some d))"
proof (induction kds arbitrary: col)
  case Nil
  then show ?case by simp
next
  case (Cons kd kds)
  obtain k d where kd: "kd = (k, d)" by (cases kd)
  from Cons.IH[of "setDoc k d col"] obtain col' where
    c: "commit (map (\<lambda>(k, d). WSet k d) kds) (setDoc k d col) = Some col'" and
    g: "\<forall>k'. getDoc col' k' =
          (case map_of (rev kds) k' of None \<Rightarrow> getDoc (setDoc k d col) k' | Some d \<Rightarrow> Some d)"
    by blast
  have "commit (map (\<lambda>(k, d). WSet k d) (kd # kds)) col = Some col'"
    using c kd by simp
  moreover have "\<forall>k'. getDoc col' k' =
          (case map_of (rev (kd # kds)) k' of None \<Rightarrow> getDoc col k' | Some d \<Rightarrow> Some d)"
  proof
    fix k'
    have "map_of (rev (kd # kds)) k' =
          (case map_of (rev kds) k' of None \<Rightarrow> (if k' = k then Some d else None) | Some x \<Rightarrow> Some x)"
      by (simp add: kd map_add_def split: option.splits)
    with g show "getDoc col' k' =
          (case map_of (rev (kd # kds)) k' of None \<Rightarrow> getDoc col k' | Some d \<Rightarrow> Some d)"
      by (simp add: getDoc_setDoc split: option.splits)
  qed
  ultimately show ?case by blast
qed

lemma enumerate_upt: "enumerate 0 xs = map (\<lambda>i. (i, xs ! i)) [0..<length xs]"
  by (rule nth_equalityI) (simp_all add: nth_enumerate_eq)

lemma recurringBatch_sets:
  "recurringBatch env classData dates = map (\<lambda>(k, d). WSet k d) (written env classData dates)"
  by (simp add: recurringBatch_def written_def enumerate_upt)

lemma written_keys:
  "map fst (written env classData dates) = map (\<lambda>j. newDocId env (Suc j)) [0..<length dates]"
  by (simp add: written_def comp_def)

lemma occurrence_written:
  assumes inj: "inj_on (newDocId env) {1..length dates}" and i: "i < length dates"
  shows "map_of (rev (written env classData dates)) (newDocId env (Suc i)) =
         Some (occurrence env classData i (dates ! i))"
proof -
  have "inj_on (\<lambda>j. newDocId env (Suc j)) (set [0..<length dates])"
  proof (rule inj_onI)
    fix x y assume x: "x \<in> set [0..<length dates]" and y: "y \<in> set [0..<length dates]"
      and e: "newDocId env (Suc x) = newDocId env (Suc y)"
    from x y have "Suc x \<in> {1..length dates}" "Suc y \<in> {1..length dates}" by simp_all
    from inj_onD[OF inj e this] show "x = y" by simp
  qed
  then have "distinct (map fst (written env classData dates))"
    by (simp add: written_keys distinct_map)
  then have dr: "distinct (map fst (rev (written env classData dates)))"
    by (simp only: rev_map[symmetric] distinct_rev)
  have "(newDocId env (Suc i), occurrence env classData i (dates ! i))
          \<in> set (rev (written env classData dates))"
    using i by (simp add: written_def)
  with dr show ?thesis by (rule map_of_is_SomeI)
qed

lemma untouched_key:
  assumes "\<forall>j < length dates. k \<noteq> newDocId env (Suc j)"
  shows "map_of (rev (written env classData dates)) k = None"
proof -
  have "k \<notin> set (map (\<lambda>j. newDocId env (Suc j)) [0..<length dates])"
    using assms by auto
  moreover have "set (map fst (rev (written env classData dates))) =
                 set (map fst (written env classData dates))"
    by simp
  ultimately have "k \<notin> set (map fst (rev (written env classData dates)))"
    by (simp only: written_keys not_False_eq_True)
  then show ?thesis by (simp add: map_of_eq_None_iff)
qed

lemma uuid_not_auto: "isUUID u \<Longrightarrow> isAutoId a \<Longrightarrow> u \<noteq> a"
  by (auto simp: isUUID_def isAutoId_def)

lemma addClass_recurring:
  assumes rec: "isRecurring newClass"
    and dates: "dates = recurringDates env (parseISO env (datetime newClass))
                          (addYears env (parseISO env (datetime newClass)) 1)"
  shows "\<exists>col'. commit (recurringBatch env (newClass\<lparr>cid := newDocId env 0\<rparr>) dates) (classesCol fb) = Some col' \<and>
     (\<forall>k. getDoc col' k =
        (case map_of (rev (written env (newClass\<lparr>cid := newDocId env 0\<rparr>) dates)) k of
           None \<Rightarrow> getDoc (classesCol fb) k | Some d \<Rightarrow> Some d)) \<and>
     addClass env now' newClass (fb, st) =
       fetchClasses now'
         ((logCall (Commit (recurringBatch env (newClass\<lparr>cid := newDocId env 0\<rparr>) dates)) fb)
            \<lparr>classesCol := col'\<rparr>, st)"
proof -
  let ?cd = "newClass\<lparr>cid := newDocId env 0\<rparr>"
  obtain col' where
    c: "commit (recurringBatch env ?cd dates) (classesCol fb) = Some col'" and
    g: "\<forall>k. getDoc col' k =
        (case map_of (rev (written env ?cd dates)) k of
           None \<Rightarrow> getDoc (classesCol fb) k | Some d \<Rightarrow> Some d)"
    using commit_sets[of "written env ?cd dates" "classesCol fb"]
    by (auto simp: recurringBatch_sets)
  have "addClass env now' newClass (fb, st) =
       fetchClasses now' ((logCall (Commit (recurringBatch env ?cd dates)) fb)\<lparr>classesCol := col'\<rparr>, st)"
    using rec c by (simp add: addClass_def Let_def dates[symmetric])
  with c g show ?thesis by blast
qed

subsection \<open>The example states, evaluated\<close>

lemma ex_wf: "wf_collection (classesCol exFirebase)"
  by (simp add: wf_collection_def exFirebase_def exClasses_def)

lemma ex_getDoc:
  "getDoc (classesCol exFirebase) ''c1'' = Some (exClass ''c1'' ''2025-01-06T18:00:00.000Z'' None [])"
  "getDoc (classesCol exFirebase) ''c2'' = Some (exClass ''c2'' ''2025-01-13T18:00:00.000Z'' (Some exSeries) [''u2''])"
  "getDoc (classesCol exFirebase) ''c3'' = Some (exClass ''c3'' ''2025-01-20T18:00:00.000Z'' (Some exSeries) [])"
  "getDoc (classesCol exFirebase) ''c4'' = Some (exClass ''c4'' ''2025-01-27T18:00:00.000Z'' (Some exSeries) [''u2'', ''u3''])"
  "getDoc (classesCol exFirebase) ''c9'' = None"
  by (simp_all add: getDoc_def exFirebase_def exClasses_def)

lemma ex_fields:
  "baseId (exClass k dt b enrolled) = b" "datetime (exClass k dt b enrolled) = dt"
  "enrolledStudents (exClass k dt b enrolled) = enrolled" "maxStudents (exClass k dt b enrolled) = 2"
  "cid (exClass k dt b enrolled) = k"
  by (simp_all add: exClass_def)




lemma exLoose_reachable:
  "classDocs (updateClass ''2025-01-15T09:00:00.000Z'' ''2025-01-15T09:00:01.000Z'' ''x1''
      (emptyPatch\<lparr>p_baseId := Some (Some [])\<rparr>) True
      (exFirebase\<lparr>classesCol :=
         [(''x1'', exClass ''x1'' ''2025-03-03T18:00:00.000Z'' (Some exSeries) []),
          (''x2'', exClass ''x2'' ''2025-03-10T18:00:00.000Z'' (Some exSeries) [])]\<rparr>, exStore)) =
   classesCol exLoose"
  by (simp add: updateClass_def seriesKey_def truthy_def getDoc_def getDocs_def updateDoc_def
      applyPatch_def emptyPatch_def fetchClasses_def classDocs_def logCall_def Let_def
      exFirebase_def exStore_def exUser_def exClass_def exSeries_def exLoose_def exLooseClasses_def)

lemmas instant_defs = instantOf_def zoneOffsetMs_def daysFromCivil_def num4_def num3_def num2_def
  digitAt_def isDigit_def Let_def

lemma instant_examples:
  "instantOf ''2025-01-06T18:00:00.000Z'' = Some 1736186400000"
  "instantOf ''2025-01-20T15:00:00.000Z'' = Some 1737385200000"
  "instantOf ''2025-01-20T18:00:00.000+05:00'' = Some 1737378000000"
  "instantOf ''2025-01-20T10:00:00.000-08:00'' = Some 1737396000000"
  "instantOf ''2026-01-05T18:00:00.000Z'' = Some 1767636000000"
  "instantOf ''2025-01-20T18:00'' = None"
  by (simp_all add: instant_defs)

lemma exZoned_reachable:
  "classDocs
     (updateClass ''2025-01-10T09:05:00.000Z'' ''2025-01-10T09:05:01.000Z'' ''c4''
        (formPatch exTeacher (exForm ''2025-01-20T10:00:00.000-08:00'')) False
        (snd (updateClass ''2025-01-10T09:00:00.000Z'' ''2025-01-10T09:00:01.000Z'' ''c3''
                (formPatch exTeacher (exForm ''2025-01-20T18:00:00.000+05:00'')) False
                (exFirebase, exStore\<lparr>user := Some exTeacher\<rparr>)))) =
   classesCol exZoned"
  by (simp add: updateClass_def seriesKey_def truthy_def getDoc_def getDocs_def updateDoc_def
      applyPatch_def formPatch_def exForm_def exTeacher_def fetchClasses_def classDocs_def
      logCall_def Let_def exFirebase_def exStore_def exClasses_def exClass_def exSeries_def
      exZoned_def exZonedClasses_def)




section \<open>Creating a series\<close>

subsection \<open>The weekly occurrences\<close>

lemma generate_unfold:
  "S < H \<Longrightarrow> generateRecurringDates S H = S # generateRecurringDates (S + weekMs) H"
  "\<not> S < H \<Longrightarrow> generateRecurringDates S H = []"
  by (simp_all add: generateRecurringDates.simps[of S H])

lemma generate_set:
  "d \<in> set (generateRecurringDates S H) \<Longrightarrow> S \<le> d \<and> d < H"
proof (induction S H rule: generateRecurringDates.induct)
  case (1 start horizonEnd)
  show ?case
  proof (cases "start < horizonEnd")
    case True
    with "1.prems" have "d = start \<or> d \<in> set (generateRecurringDates (start + weekMs) horizonEnd)"
      by (simp add: generate_unfold)
    then show ?thesis
    proof
      assume "d = start"
      with True show ?thesis by simp
    next
      assume "d \<in> set (generateRecurringDates (start + weekMs) horizonEnd)"
      from "1.IH"[OF True this] show ?thesis by (simp add: weekMs_def)
    qed
  next
    case False
    with "1.prems" show ?thesis by (simp add: generate_unfold)
  qed
qed

lemma generate_nth:
  "i < length (generateRecurringDates S H) \<Longrightarrow>
   generateRecurringDates S H ! i = S + int i * weekMs"
proof (induction S H arbitrary: i rule: generateRecurringDates.induct)
  case (1 start horizonEnd)
  show ?case
  proof (cases "start < horizonEnd")
    case True
    show ?thesis
    proof (cases i)
      case 0
      with True show ?thesis by (simp add: generate_unfold)
    next
      case (Suc j)
      with "1.prems" True have "j < length (generateRecurringDates (start + weekMs) horizonEnd)"
        by (simp add: generate_unfold)
      from "1.IH"[OF True this] Suc True show ?thesis
        by (simp add: generate_unfold algebra_simps)
    qed
  next
    case False
    with "1.prems" show ?thesis by (simp add: generate_unfold)
  qed
qed

lemma generate_sorted: "sorted_wrt (<) (generateRecurringDates S H)"
proof (induction S H rule: generateRecurringDates.induct)
  case (1 start horizonEnd)
  show ?case
  proof (cases "start < horizonEnd")
    case True
    have "\<forall>d \<in> set (generateRecurringDates (start + weekMs) horizonEnd). start < d"
    proof
      fix d assume "d \<in> set (generateRecurringDates (start + weekMs) horizonEnd)"
      from generate_set[OF this] show "start < d" by (simp add: weekMs_def)
    qed
    with "1.IH"[OF True] True show ?thesis by (simp add: generate_unfold)
  next
    case False
    then show ?thesis by (simp add: generate_unfold)
  qed
qed

lemma generate_example:
  "generateRecurringDates 1736186400000 1737482400000 =
     [1736186400000, 1736791200000, 1737396000000]"
  by (simp add: generate_unfold weekMs_def)

text \<open>
  C5. For a start instant \<open>S\<close> and a horizon \<open>H\<close> after it (a horizon one year after
  \<open>S\<close> in particular), the generated sequence is not empty and begins with \<open>S\<close>, it is
  strictly increasing, two consecutive occurrences are exactly seven days apart, and every
  occurrence lies in the half-open interval from \<open>S\<close> to \<open>H\<close>. The sequence is a list,
  hence finite, and the value of a function of \<open>S\<close> and \<open>H\<close>, hence the same for the same
  input. The generator is the one modelled from the specification.
\<close>

theorem weekly_occurrences:
  assumes "S < H"
  shows "generateRecurringDates S H \<noteq> [] \<and>
         hd (generateRecurringDates S H) = S \<and>
         sorted_wrt (<) (generateRecurringDates S H) \<and>
         (Suc i < length (generateRecurringDates S H) \<longrightarrow>
            generateRecurringDates S H ! Suc i - generateRecurringDates S H ! i = weekMs) \<and>
         (d \<in> set (generateRecurringDates S H) \<longrightarrow> S \<le> d \<and> d < H)"
proof (intro conjI impI)
  from assms show "generateRecurringDates S H \<noteq> []" by (simp add: generate_unfold)
  from assms show "hd (generateRecurringDates S H) = S" by (simp add: generate_unfold)
  show "sorted_wrt (<) (generateRecurringDates S H)" by (rule generate_sorted)
next
  assume l: "Suc i < length (generateRecurringDates S H)"
  then have "i < length (generateRecurringDates S H)" by simp
  from generate_nth[OF l] generate_nth[OF this]
  show "generateRecurringDates S H ! Suc i - generateRecurringDates S H ! i = weekMs"
    by (simp add: algebra_simps)
next
  assume "d \<in> set (generateRecurringDates S H)"
  from generate_set[OF this] show "S \<le> d" and "d < H" by simp_all
qed

theorem weekly_occurrences_witness:
  "generateRecurringDates 1736186400000 1737482400000 \<noteq> [] \<and>
   hd (generateRecurringDates 1736186400000 1737482400000) = 1736186400000 \<and>
   sorted_wrt (<) (generateRecurringDates 1736186400000 1737482400000) \<and>
   generateRecurringDates 1736186400000 1737482400000 ! Suc 0 -
     generateRecurringDates 1736186400000 1737482400000 ! 0 = weekMs \<and>
   1736186400000 \<le> (1736791200000::int) \<and> (1736791200000::int) < 1737482400000"
proof -
  have lt: "(1736186400000::int) < 1737482400000" by simp
  note t = weekly_occurrences[OF lt, where i = 0 and d = 1736791200000]
  have l: "Suc 0 < length (generateRecurringDates 1736186400000 1737482400000)"
    by (simp add: generate_example)
  have m: "(1736791200000::int) \<in> set (generateRecurringDates 1736186400000 1737482400000)"
    by (simp add: generate_example)
  from t l m show ?thesis by blast
qed

subsection \<open>The identity of a series\<close>

lemma exEnv_length:
  "length (generateRecurringDates 1736186400000 1767722400000) = 53"
  by (simp add: generate_unfold weekMs_def)

lemma exEnv_nth:
  "generateRecurringDates 1736186400000 1767722400000 ! 0 = 1736186400000"
  "generateRecurringDates 1736186400000 1767722400000 ! 1 = 1736791200000"
  "generateRecurringDates 1736186400000 1767722400000 ! 52 = 1767636000000"
  using generate_nth[of 0 1736186400000 1767722400000]
    generate_nth[of 1 1736186400000 1767722400000]
    generate_nth[of 52 1736186400000 1767722400000]
  by (simp_all add: exEnv_length weekMs_def)

lemma exEnv_keys_distinct: "inj_on (newDocId exEnv) {1..53}"
proof (rule inj_onI)
  fix x y :: nat
  assume x: "x \<in> {1..53}" and y: "y \<in> {1..53}"
    and e: "newDocId exEnv x = newDocId exEnv y"
  from e have a: "''0123456789'' ! (x div 10) = ''0123456789'' ! (y div 10)"
    and b: "''0123456789'' ! (x mod 10) = ''0123456789'' ! (y mod 10)"
    by (simp_all add: exEnv_def)
  have d: "distinct ''0123456789''" by simp
  from x y have l: "x div 10 < length ''0123456789''" "y div 10 < length ''0123456789''"
    "x mod 10 < length ''0123456789''" "y mod 10 < length ''0123456789''" by auto
  from a b have "x div 10 = y div 10" "x mod 10 = y mod 10"
    by (simp_all only: nth_eq_iff_index_eq[OF d l(1) l(2)] nth_eq_iff_index_eq[OF d l(3) l(4)])
  then show "x = y" by (metis div_mult_mod_eq)
qed

lemma exEnv_keys:
  "newDocId exEnv (Suc 0) = ''r0Kq7ZbT2mXw9LdPv401''"
  "newDocId exEnv (Suc 1) = ''r0Kq7ZbT2mXw9LdPv402''"
  "newDocId exEnv (Suc 52) = ''r0Kq7ZbT2mXw9LdPv453''"
  by (simp_all add: exEnv_def)

lemma exEnv_dates:
  "recurringDates exEnv (parseISO exEnv (datetime exNewClass))
      (addYears exEnv (parseISO exEnv (datetime exNewClass)) 1) =
   generateRecurringDates 1736186400000 1767722400000"
  by (simp add: exEnv_def)

lemma exEnv_ids: "\<forall>j. isAutoId (newDocId exEnv j)"
  by (simp add: exEnv_def isAutoId_def)

lemma exEnv_uuid: "isUUID (randomUUID exEnv)"
  by (simp add: exEnv_def isUUID_def exSeries_def)

lemma exEnv_fresh:
  "inj_on (newDocId exEnv) {1..length (generateRecurringDates 1736186400000 1767722400000)}"
  by (simp only: exEnv_length exEnv_keys_distinct)

text \<open>
  C1. When \<open>addClass\<close> creates a recurring series from the dates its generator returns,
  with document keys that are automatic keys of the store, distinct from one another, and a
  UUID from \<open>crypto.randomUUID\<close>, it succeeds with one committed batch of one write per
  date, its only write. The occurrence of index \<open>i\<close> is then stored under its own key with
  the fields of the draft, its own \<open>id\<close>, the date of index \<open>i\<close>, and a \<open>baseId\<close> that is
  \<open>null\<close> for the first occurrence (\<open>i = 0\<close>) and the UUID for every other one. The UUID
  is not the key of any occurrence (a UUID has 36 characters, a key 20), and every document
  under another key is as before.
\<close>

theorem series_identity:
  assumes rec: "isRecurring newClass"
    and dates: "dates = recurringDates env (parseISO env (datetime newClass))
                          (addYears env (parseISO env (datetime newClass)) 1)"
    and ids: "\<forall>j. isAutoId (newDocId env j)"
    and uuid: "isUUID (randomUUID env)"
    and fresh: "inj_on (newDocId env) {1..length dates}"
    and i: "i < length dates"
  shows
    "outcomeOf (addClass env now' newClass (fb, st)) = Ok \<and>
     writesOf (callsOf (addClass env now' newClass (fb, st))) =
       writesOf (calls fb) @ [Commit (recurringBatch env (newClass\<lparr>cid := newDocId env 0\<rparr>) dates)] \<and>
     length (recurringBatch env (newClass\<lparr>cid := newDocId env 0\<rparr>) dates) = length dates \<and>
     getDoc (classDocs (addClass env now' newClass (fb, st))) (newDocId env (Suc i)) =
       Some (newClass\<lparr> cid := newDocId env (Suc i),
                       datetime := toISOString env (dates ! i),
                       baseId := (if i = 0 then None else Some (randomUUID env)) \<rparr>) \<and>
     randomUUID env \<noteq> newDocId env (Suc i) \<and>
     ((\<forall>j < length dates. k \<noteq> newDocId env (Suc j)) \<longrightarrow>
        getDoc (classDocs (addClass env now' newClass (fb, st))) k = getDoc (classesCol fb) k)"
proof -
  let ?cd = "newClass\<lparr>cid := newDocId env 0\<rparr>"
  let ?batch = "recurringBatch env ?cd dates"
  from addClass_recurring[OF rec dates, of fb now' st] obtain col' where
    g: "\<forall>k. getDoc col' k =
        (case map_of (rev (written env ?cd dates)) k of
           None \<Rightarrow> getDoc (classesCol fb) k | Some d \<Rightarrow> Some d)" and
    r: "addClass env now' newClass (fb, st) =
       fetchClasses now' ((logCall (Commit ?batch) fb)\<lparr>classesCol := col'\<rparr>, st)"
    by blast
  have 1: "outcomeOf (addClass env now' newClass (fb, st)) = Ok"
    unfolding r by (rule fetchClasses_outcome)
  have 2: "writesOf (callsOf (addClass env now' newClass (fb, st))) =
       writesOf (calls fb) @ [Commit ?batch]"
    unfolding r fetchClasses_writes by (simp add: writesOf_def isWrite_def)
  have 3: "length ?batch = length dates" by (simp add: recurringBatch_def)
  have docs: "classDocs (addClass env now' newClass (fb, st)) = col'"
    unfolding r fetchClasses_docs by simp
  have occ: "occurrence env ?cd i (dates ! i) =
       newClass\<lparr> cid := newDocId env (Suc i),
                 datetime := toISOString env (dates ! i),
                 baseId := (if i = 0 then None else Some (randomUUID env)) \<rparr>"
    by (simp add: occurrence_def)
  have 4: "getDoc (classDocs (addClass env now' newClass (fb, st))) (newDocId env (Suc i)) =
       Some (newClass\<lparr> cid := newDocId env (Suc i),
                       datetime := toISOString env (dates ! i),
                       baseId := (if i = 0 then None else Some (randomUUID env)) \<rparr>)"
    using g occurrence_written[OF fresh i, of ?cd] occ by (simp add: docs)
  have 5: "randomUUID env \<noteq> newDocId env (Suc i)"
    using uuid ids by (simp add: uuid_not_auto)
  have 6: "(\<forall>j < length dates. k \<noteq> newDocId env (Suc j)) \<longrightarrow>
        getDoc (classDocs (addClass env now' newClass (fb, st))) k = getDoc (classesCol fb) k"
  proof
    assume "\<forall>j < length dates. k \<noteq> newDocId env (Suc j)"
    from untouched_key[OF this, of ?cd] g
    show "getDoc (classDocs (addClass env now' newClass (fb, st))) k = getDoc (classesCol fb) k"
      by (simp add: docs)
  qed
  from 1 2 3 4 5 6 show ?thesis by blast
qed

theorem series_identity_witness:
  "length (recurringBatch exEnv (exNewClass\<lparr>cid := newDocId exEnv 0\<rparr>)
             (generateRecurringDates 1736186400000 1767722400000)) = 53 \<and>
   getDoc (classDocs (addClass exEnv ''2025-01-02T09:00:00.000Z'' exNewClass (exFirebase, exStore)))
       ''r0Kq7ZbT2mXw9LdPv401'' =
     Some (exClass ''r0Kq7ZbT2mXw9LdPv401'' ''2025-01-06T18:00:00.000Z'' None []) \<and>
   getDoc (classDocs (addClass exEnv ''2025-01-02T09:00:00.000Z'' exNewClass (exFirebase, exStore)))
       ''r0Kq7ZbT2mXw9LdPv402'' =
     Some (exClass ''r0Kq7ZbT2mXw9LdPv402'' ''2025-01-13T18:00:00.000Z'' (Some exSeries) []) \<and>
   getDoc (classDocs (addClass exEnv ''2025-01-02T09:00:00.000Z'' exNewClass (exFirebase, exStore)))
       ''r0Kq7ZbT2mXw9LdPv453'' =
     Some (exClass ''r0Kq7ZbT2mXw9LdPv453'' ''2026-01-05T18:00:00.000Z'' (Some exSeries) []) \<and>
   exSeries \<noteq> ''r0Kq7ZbT2mXw9LdPv401'' \<and> exSeries \<noteq> ''r0Kq7ZbT2mXw9LdPv402'' \<and>
   exSeries \<noteq> ''r0Kq7ZbT2mXw9LdPv453''"
proof -
  have rec: "isRecurring exNewClass" by (simp add: exNewClass_def exClass_def)
  note t = series_identity[OF rec exEnv_dates[symmetric] exEnv_ids exEnv_uuid exEnv_fresh,
      where now' = "''2025-01-02T09:00:00.000Z''" and fb = exFirebase and st = exStore]
  have i: "0 < length (generateRecurringDates 1736186400000 1767722400000)"
    "1 < length (generateRecurringDates 1736186400000 1767722400000)"
    "52 < length (generateRecurringDates 1736186400000 1767722400000)"
    by (simp_all add: exEnv_length)
  have u: "randomUUID exEnv = exSeries" by (simp add: exEnv_def)
  have s: "toISOString exEnv 1736186400000 = ''2025-01-06T18:00:00.000Z''"
    "toISOString exEnv 1736791200000 = ''2025-01-13T18:00:00.000Z''"
    "toISOString exEnv 1767636000000 = ''2026-01-05T18:00:00.000Z''"
    by (simp_all add: exEnv_def)
  note t0 = t[OF i(1), unfolded exEnv_keys exEnv_nth exEnv_length s u]
  note t1 = t[OF i(2), unfolded exEnv_keys exEnv_nth exEnv_length s u]
  note t52 = t[OF i(3), unfolded exEnv_keys exEnv_nth exEnv_length s u]
  from t0 have 0: "length (recurringBatch exEnv (exNewClass\<lparr>cid := newDocId exEnv 0\<rparr>)
             (generateRecurringDates 1736186400000 1767722400000)) = 53"
    and a: "exSeries \<noteq> ''r0Kq7ZbT2mXw9LdPv401''"
    by blast+
  from t0 have "getDoc (classDocs (addClass exEnv ''2025-01-02T09:00:00.000Z'' exNewClass
        (exFirebase, exStore))) ''r0Kq7ZbT2mXw9LdPv401'' =
     Some (exNewClass\<lparr>cid := ''r0Kq7ZbT2mXw9LdPv401'', datetime := ''2025-01-06T18:00:00.000Z'',
                        baseId := (if (0::nat) = 0 then None else Some exSeries)\<rparr>)"
    by blast
  then have 1: "getDoc (classDocs (addClass exEnv ''2025-01-02T09:00:00.000Z'' exNewClass
        (exFirebase, exStore))) ''r0Kq7ZbT2mXw9LdPv401'' =
     Some (exClass ''r0Kq7ZbT2mXw9LdPv401'' ''2025-01-06T18:00:00.000Z'' None [])"
    by (simp add: exNewClass_def exClass_def)
  from t1 have b: "exSeries \<noteq> ''r0Kq7ZbT2mXw9LdPv402''" by blast
  from t1 have "getDoc (classDocs (addClass exEnv ''2025-01-02T09:00:00.000Z'' exNewClass
        (exFirebase, exStore))) ''r0Kq7ZbT2mXw9LdPv402'' =
     Some (exNewClass\<lparr>cid := ''r0Kq7ZbT2mXw9LdPv402'', datetime := ''2025-01-13T18:00:00.000Z'',
                        baseId := (if (1::nat) = 0 then None else Some exSeries)\<rparr>)"
    by blast
  then have 2: "getDoc (classDocs (addClass exEnv ''2025-01-02T09:00:00.000Z'' exNewClass
        (exFirebase, exStore))) ''r0Kq7ZbT2mXw9LdPv402'' =
     Some (exClass ''r0Kq7ZbT2mXw9LdPv402'' ''2025-01-13T18:00:00.000Z'' (Some exSeries) [])"
    by (simp add: exNewClass_def exClass_def)
  from t52 have c: "exSeries \<noteq> ''r0Kq7ZbT2mXw9LdPv453''" by blast
  from t52 have "getDoc (classDocs (addClass exEnv ''2025-01-02T09:00:00.000Z'' exNewClass
        (exFirebase, exStore))) ''r0Kq7ZbT2mXw9LdPv453'' =
     Some (exNewClass\<lparr>cid := ''r0Kq7ZbT2mXw9LdPv453'', datetime := ''2026-01-05T18:00:00.000Z'',
                        baseId := (if (52::nat) = 0 then None else Some exSeries)\<rparr>)"
    by blast
  then have 3: "getDoc (classDocs (addClass exEnv ''2025-01-02T09:00:00.000Z'' exNewClass
        (exFirebase, exStore))) ''r0Kq7ZbT2mXw9LdPv453'' =
     Some (exClass ''r0Kq7ZbT2mXw9LdPv453'' ''2026-01-05T18:00:00.000Z'' (Some exSeries) [])"
    by (simp add: exNewClass_def exClass_def)
  from 0 1 2 3 a b c show ?thesis by blast
qed

section \<open>Updating and deleting, one class or the series\<close>




text \<open>
  C4. When the target is a first occurrence (its \<open>baseId\<close> is \<open>null\<close>) and the flag is set,
  \<open>updateClass\<close> patches the target and leaves every other document as it was, with one
  \<open>updateDoc\<close> as its only write, and \<open>deleteClass\<close> removes the target and leaves every
  other document as it was, with one \<open>deleteDoc\<close> as its only write.
\<close>

theorem first_occurrence_single_document:
  assumes "getDoc (classesCol fb) classId = Some c" and "baseId c = None"
  shows "outcomeOf (updateClass now now' classId p True (fb, st)) = Ok \<and>
         (\<forall>k. getDoc (classDocs (updateClass now now' classId p True (fb, st))) k =
              (if k = classId then Some (applyPatch p c) else getDoc (classesCol fb) k)) \<and>
         writesOf (callsOf (updateClass now now' classId p True (fb, st))) =
           writesOf (calls fb) @ [UpdateDoc ''classes'' classId] \<and>
         outcomeOf (deleteClass now now' classId True (fb, st)) = Ok \<and>
         (\<forall>k. getDoc (classDocs (deleteClass now now' classId True (fb, st))) k =
              (if k = classId then None else getDoc (classesCol fb) k)) \<and>
         writesOf (callsOf (deleteClass now now' classId True (fb, st))) =
           writesOf (calls fb) @ [DeleteDoc ''classes'' classId]"
proof -
  from assms(2) have n: "seriesKey True c = None"
    by (simp add: seriesKey_def truthy_def)
  from updateClass_single[OF assms(1) n, of now now' p st]
    deleteClass_single[OF assms(1) n, of now now' st]
  show ?thesis by simp
qed

theorem first_occurrence_single_document_witness:
  "getDoc (classDocs (updateClass ''2025-01-01T09:00:00.000Z'' ''2025-01-01T09:00:01.000Z''
        ''c1'' exPatch True (exFirebase, exStore))) ''c1'' =
     Some ((exClass ''c1'' ''2025-01-06T18:00:00.000Z'' None [])
            \<lparr>title := ''Pole avance'', level := advanced\<rparr>) \<and>
   getDoc (classDocs (updateClass ''2025-01-01T09:00:00.000Z'' ''2025-01-01T09:00:01.000Z''
        ''c1'' exPatch True (exFirebase, exStore))) ''c2'' =
     Some (exClass ''c2'' ''2025-01-13T18:00:00.000Z'' (Some exSeries) [''u2'']) \<and>
   getDoc (classDocs (deleteClass ''2025-01-01T09:00:00.000Z'' ''2025-01-01T09:00:01.000Z''
        ''c1'' True (exFirebase, exStore))) ''c1'' = None \<and>
   getDoc (classDocs (deleteClass ''2025-01-01T09:00:00.000Z'' ''2025-01-01T09:00:01.000Z''
        ''c1'' True (exFirebase, exStore))) ''c2'' =
     Some (exClass ''c2'' ''2025-01-13T18:00:00.000Z'' (Some exSeries) [''u2''])"
proof -
  have b: "baseId (exClass ''c1'' ''2025-01-06T18:00:00.000Z'' None []) = None"
    by (simp add: exClass_def)
  note t = first_occurrence_single_document[OF ex_getDoc(1) b,
      of "''2025-01-01T09:00:00.000Z''" "''2025-01-01T09:00:01.000Z''" exPatch exStore]
  have p: "applyPatch exPatch (exClass ''c1'' ''2025-01-06T18:00:00.000Z'' None []) =
           (exClass ''c1'' ''2025-01-06T18:00:00.000Z'' None [])
             \<lparr>title := ''Pole avance'', level := advanced\<rparr>"
    by (simp add: applyPatch_def exPatch_def emptyPatch_def exClass_def)
  from t p show ?thesis by (simp add: ex_getDoc)
qed




section \<open>Enrollment\<close>




text \<open>
  C6. Enrollment is idempotent on every document of a well-formed collection, whichever
  class is the target and whether one class or the series is addressed: if the user is
  already in \<open>enrolledStudents\<close>, \<open>arrayUnion\<close> returns the list as it is and
  \<open>enrollInClass\<close> leaves the document as it was; if the user is not in it,
  \<open>arrayRemove\<close> returns the list as it is and \<open>unenrollFromClass\<close> leaves the document
  as it was.
\<close>

theorem enrollment_idempotent:
  assumes "wf_collection (classesCol fb)" and "getDoc (classesCol fb) k = Some d"
  shows "(userId \<in> set (enrolledStudents d) \<longrightarrow>
            arrayUnion userId (enrolledStudents d) = enrolledStudents d \<and>
            getDoc (classDocs (enrollInClass now' classId userId flag (fb, st))) k = Some d) \<and>
         (userId \<notin> set (enrolledStudents d) \<longrightarrow>
            arrayRemove userId (enrolledStudents d) = enrolledStudents d \<and>
            getDoc (classDocs (unenrollFromClass now' classId userId flag (fb, st))) k = Some d)"
proof (intro conjI impI)
  assume m: "userId \<in> set (enrolledStudents d)"
  then show "arrayUnion userId (enrolledStudents d) = enrolledStudents d"
    by (rule arrayUnion_member)
  then have "applyUpdate (EnrolledUnion userId) d = d" by simp
  with enrollment_docs[OF assms, of EnrolledUnion now' classId userId flag st]
  show "getDoc (classDocs (enrollInClass now' classId userId flag (fb, st))) k = Some d"
    by (auto simp: enrollInClass_def)
next
  assume m: "userId \<notin> set (enrolledStudents d)"
  then show "arrayRemove userId (enrolledStudents d) = enrolledStudents d"
    by (rule arrayRemove_absent)
  then have "applyUpdate (EnrolledRemove userId) d = d" by simp
  with enrollment_docs[OF assms, of EnrolledRemove now' classId userId flag st]
  show "getDoc (classDocs (unenrollFromClass now' classId userId flag (fb, st))) k = Some d"
    by (auto simp: unenrollFromClass_def)
qed

theorem enrollment_idempotent_witness:
  "getDoc (classDocs (enrollInClass ''2025-01-15T09:00:00.000Z'' ''c2'' ''u2'' True
             (exFirebase, exStore))) ''c4'' =
     Some (exClass ''c4'' ''2025-01-27T18:00:00.000Z'' (Some exSeries) [''u2'', ''u3'']) \<and>
   getDoc (classDocs (unenrollFromClass ''2025-01-15T09:00:00.000Z'' ''c2'' ''u2'' True
             (exFirebase, exStore))) ''c3'' =
     Some (exClass ''c3'' ''2025-01-20T18:00:00.000Z'' (Some exSeries) [])"
  using enrollment_idempotent[OF ex_wf ex_getDoc(4), of "''u2''" "''2025-01-15T09:00:00.000Z''" "''c2''" True exStore]
    enrollment_idempotent[OF ex_wf ex_getDoc(3), of "''u2''" "''2025-01-15T09:00:00.000Z''" "''c2''" True exStore]
  by (simp add: exClass_def)

text \<open>
  C7. Nothing in the enrollment checks the capacity. The only test is the caller's: the
  button of the card is disabled when the class on display is full. Whenever that test
  passes for the class on display, \<open>handleEnrollment\<close> is \<open>enrollInClass\<close>, it succeeds,
  and every document it addresses (the target alone, or the series from the target on)
  that was full and did not hold the user now holds one student more than \<open>maxStudents\<close>
  allows. The witness is such a state: the student enrolls in the series from a class with
  free places, and a later class that was full ends with three students for two places.
\<close>

theorem capacity_not_enforced:
  assumes wf: "wf_collection (classesCol fb)"
    and u: "user st = Some u"
    and enabled: "\<not> enrollDisabled (user st) classData False"
    and notyet: "\<not> isEnrolled (user st) classData"
    and c: "getDoc (classesCol fb) (cid classData) = Some c"
    and d: "getDoc (classesCol fb) k = Some d"
    and targeted: "if enrollAll \<and> truthy (baseId c)
                   then baseId d = baseId c \<and> datetime c \<le> datetime d
                   else k = cid classData"
    and absent: "u_id u \<notin> set (enrolledStudents d)"
    and full: "isFull d"
  shows
    "\<not> isFull classData \<and>
     handleEnrollment now' classData enrollAll (fb, st) =
       enrollInClass now' (cid classData) (u_id u) enrollAll (fb, st) \<and>
     outcomeOf (handleEnrollment now' classData enrollAll (fb, st)) = Ok \<and>
     getDoc (classDocs (handleEnrollment now' classData enrollAll (fb, st))) k =
       Some (d\<lparr>enrolledStudents := enrolledStudents d @ [u_id u]\<rparr>) \<and>
     maxStudents d < int (length (enrolledStudents d @ [u_id u]))"
proof -
  have nf: "\<not> isFull classData" using enabled notyet by (simp add: enrollDisabled_def)
  have h: "handleEnrollment now' classData enrollAll (fb, st) =
       enrollInClass now' (cid classData) (u_id u) enrollAll (fb, st)"
    using u notyet by (simp add: handleEnrollment_def)
  have upd: "applyUpdate (EnrolledUnion (u_id u)) d =
             d\<lparr>enrolledStudents := enrolledStudents d @ [u_id u]\<rparr>"
    using absent by (simp add: arrayUnion_def)
  have res: "outcomeOf (enrollment EnrolledUnion now' (cid classData) (u_id u) enrollAll (fb, st)) = Ok \<and>
       getDoc (classDocs (enrollment EnrolledUnion now' (cid classData) (u_id u) enrollAll (fb, st))) k =
         Some (applyUpdate (EnrolledUnion (u_id u)) d)"
  proof (cases "seriesKey enrollAll c")
    case None
    then have "k = cid classData" using targeted by (simp add: seriesKey_None)
    with enrollment_single[OF c None, of EnrolledUnion now' "u_id u" st] c d
    show ?thesis by simp
  next
    case (Some b)
    then have f: "enrollAll" "truthy (baseId c)" "baseId c = Some b"
      by (auto simp: seriesKey_Some)
    from targeted f(1,2) have "baseId d = baseId c \<and> datetime c \<le> datetime d" by simp
    with f(3) have "baseId d = Some b \<and> datetime c \<le> datetime d" by simp
    with enrollment_series[OF wf c Some, of EnrolledUnion now' "u_id u" st] d
    show ?thesis by simp
  qed
  have over: "maxStudents d < int (length (enrolledStudents d @ [u_id u]))"
    using full by (simp add: isFull_def)
  from nf h res upd over show ?thesis by (simp add: enrollInClass_def)
qed

theorem capacity_not_enforced_witness:
  "\<not> enrollDisabled (user exStore) (exClass ''c3'' ''2025-01-20T18:00:00.000Z'' (Some exSeries) []) False \<and>
   isFull (exClass ''c4'' ''2025-01-27T18:00:00.000Z'' (Some exSeries) [''u2'', ''u3'']) \<and>
   outcomeOf (handleEnrollment ''2025-01-15T09:00:00.000Z''
     (exClass ''c3'' ''2025-01-20T18:00:00.000Z'' (Some exSeries) []) True (exFirebase, exStore)) = Ok \<and>
   getDoc (classDocs (handleEnrollment ''2025-01-15T09:00:00.000Z''
     (exClass ''c3'' ''2025-01-20T18:00:00.000Z'' (Some exSeries) []) True (exFirebase, exStore))) ''c4'' =
     Some (exClass ''c4'' ''2025-01-27T18:00:00.000Z'' (Some exSeries) [''u2'', ''u3'', ''u1'']) \<and>
   maxStudents (exClass ''c4'' ''2025-01-27T18:00:00.000Z'' (Some exSeries) [''u2'', ''u3'', ''u1'']) <
     int (length (enrolledStudents
       (exClass ''c4'' ''2025-01-27T18:00:00.000Z'' (Some exSeries) [''u2'', ''u3'', ''u1''])))"
proof -
  let ?c3 = "exClass ''c3'' ''2025-01-20T18:00:00.000Z'' (Some exSeries) []"
  let ?c4 = "exClass ''c4'' ''2025-01-27T18:00:00.000Z'' (Some exSeries) [''u2'', ''u3'']"
  have u: "user exStore = Some exUser" by (simp add: exStore_def)
  have enabled: "\<not> enrollDisabled (user exStore) ?c3 False"
    by (simp add: enrollDisabled_def isEnrolled_def isFull_def exStore_def ex_fields)
  have notyet: "\<not> isEnrolled (user exStore) ?c3"
    by (simp add: isEnrolled_def exStore_def ex_fields)
  have c: "getDoc (classesCol exFirebase) (cid ?c3) = Some ?c3"
    by (simp add: ex_fields ex_getDoc)
  have targeted: "if True \<and> truthy (baseId ?c3)
                   then baseId ?c4 = baseId ?c3 \<and> datetime ?c3 \<le> datetime ?c4
                   else ''c4'' = cid ?c3"
    by (simp add: ex_fields truthy_def exSeries_def)
  have absent: "u_id exUser \<notin> set (enrolledStudents ?c4)"
    by (simp add: ex_fields exUser_def)
  have full: "isFull ?c4" by (simp add: isFull_def ex_fields)
  note t = capacity_not_enforced[OF ex_wf u enabled notyet c ex_getDoc(4) targeted absent full,
      of "''2025-01-15T09:00:00.000Z''"]
  have e: "?c4\<lparr>enrolledStudents := enrolledStudents ?c4 @ [u_id exUser]\<rparr> =
           exClass ''c4'' ''2025-01-27T18:00:00.000Z'' (Some exSeries) [''u2'', ''u3'', ''u1'']"
    by (simp add: exClass_def exUser_def)
  from t[THEN conjunct2, THEN conjunct2] enabled full e show ?thesis by (simp add: ex_fields)
qed

section \<open>The profile\<close>

lemma saveProfile_outcome: "outcomeOf (saveProfile u n e s) \<noteq> Failed ValidationFailure"
  by (cases s) (simp add: saveProfile_def outcomeOf_def Let_def split: option.splits)

lemma updateProfile_example:
  "updateProfile (exData\<lparr>d_email := ''lovelace@example.org'', d_currentPassword := Some ''secret1''\<rparr>)
     (exFirebase, exStore) =
   (Ok,
    exFirebase\<lparr> usersCol := [(''u1'', exUser\<lparr>u_email := ''lovelace@example.org''\<rparr>)],
                currentUser := Some \<lparr> a_email = ''lovelace@example.org'', a_password = ''secret1'' \<rparr>,
                calls := [Reauthenticate, UpdateEmail, UpdateDoc ''users'' ''u1''] \<rparr>,
    exStore\<lparr>user := Some (exUser\<lparr>u_email := ''lovelace@example.org''\<rparr>)\<rparr>)"
  by (simp add: updateProfile_def saveProfile_def applyUpdates_def updateDoc_def logCall_def
      exData_def exStore_def exUser_def exFirebase_def truthy_def Let_def)

text \<open>
  C8, as amended. The schema of the form raises an issue when a change of email or password
  comes without the current password, and when the new password and its confirmation
  differ. \<open>updateProfile\<close> never sees the confirmation, so a mismatch is rejected by the
  form alone. A change of email or password without the current password is rejected by
  \<open>updateProfile\<close> itself as well: with a signed-in user it fails with
  \<open>ValidationFailure\<close> exactly in that case, before any call to the identity service or
  the store, and leaves every state as it was.
\<close>

theorem credential_validation:
  "((i_email inp \<noteq> initialEmail \<or> truthy (i_newPassword inp)) \<and> \<not> truthy (i_currentPassword inp)
      \<longrightarrow> CurrentPasswordIssue \<in> set (superRefine initialEmail inp)) \<and>
   (truthy (i_newPassword inp) \<and> i_newPassword inp \<noteq> i_confirmPassword inp
      \<longrightarrow> ConfirmPasswordIssue \<in> set (superRefine initialEmail inp)) \<and>
   (outcomeOf (updateProfile data (fb, st)) = Failed ValidationFailure \<longleftrightarrow>
      (\<exists>u au. user st = Some u \<and> currentUser fb = Some au \<and>
         (d_email data \<noteq> u_email u \<or> truthy (d_newPassword data)) \<and>
         \<not> truthy (d_currentPassword data))) \<and>
   (outcomeOf (updateProfile data (fb, st)) = Failed ValidationFailure \<longrightarrow>
      updateProfile data (fb, st) = (Failed ValidationFailure, fb, st))"
proof (intro conjI)
  show "(i_email inp \<noteq> initialEmail \<or> truthy (i_newPassword inp)) \<and> \<not> truthy (i_currentPassword inp)
      \<longrightarrow> CurrentPasswordIssue \<in> set (superRefine initialEmail inp)"
    by (simp add: superRefine_def)
  show "truthy (i_newPassword inp) \<and> i_newPassword inp \<noteq> i_confirmPassword inp
      \<longrightarrow> ConfirmPasswordIssue \<in> set (superRefine initialEmail inp)"
    by (cases "i_newPassword inp") (auto simp: superRefine_def truthy_def)
  have cases: "updateProfile data (fb, st) =
      (case user st of None \<Rightarrow> (Failed Unauthenticated, fb, st)
       | Some u \<Rightarrow> (case currentUser fb of None \<Rightarrow> (Failed Unauthenticated, fb, st)
          | Some au \<Rightarrow>
             if (d_email data \<noteq> u_email u \<or> truthy (d_newPassword data)) \<and>
                \<not> truthy (d_currentPassword data)
             then (Failed ValidationFailure, fb, st)
             else updateProfile data (fb, st)))"
    by (simp add: updateProfile_def split: option.splits)
  have other: "outcomeOf (updateProfile data (fb, st)) \<noteq> Failed ValidationFailure"
    if "user st = Some u" "currentUser fb = Some au"
       "\<not> ((d_email data \<noteq> u_email u \<or> truthy (d_newPassword data)) \<and>
           \<not> truthy (d_currentPassword data))" for u au
    using that saveProfile_outcome
    by (simp add: updateProfile_def Let_def outcomeOf_def split: option.splits) (auto simp: outcomeOf_def)
  show "outcomeOf (updateProfile data (fb, st)) = Failed ValidationFailure \<longleftrightarrow>
      (\<exists>u au. user st = Some u \<and> currentUser fb = Some au \<and>
         (d_email data \<noteq> u_email u \<or> truthy (d_newPassword data)) \<and>
         \<not> truthy (d_currentPassword data))"
  proof (cases "user st")
    case None
    then show ?thesis by (simp add: updateProfile_def outcomeOf_def)
  next
    case (Some u)
    show ?thesis
    proof (cases "currentUser fb")
      case None
      with Some show ?thesis by (simp add: updateProfile_def outcomeOf_def)
    next
      case (Some au)
      show ?thesis
      proof (cases "(d_email data \<noteq> u_email u \<or> truthy (d_newPassword data)) \<and>
           \<not> truthy (d_currentPassword data)")
        case True
        with \<open>user st = Some u\<close> Some show ?thesis
          by (simp add: updateProfile_def outcomeOf_def)
      next
        case False
        from other[OF \<open>user st = Some u\<close> Some False] False \<open>user st = Some u\<close> Some
        show ?thesis by simp
      qed
    qed
  qed
  then show "outcomeOf (updateProfile data (fb, st)) = Failed ValidationFailure \<longrightarrow>
      updateProfile data (fb, st) = (Failed ValidationFailure, fb, st)"
    by (auto simp: updateProfile_def)
qed

theorem credential_validation_witness:
  "CurrentPasswordIssue \<in> set (superRefine ''ada@example.org''
      (exInputs\<lparr>i_email := ''lovelace@example.org''\<rparr>)) \<and>
   ConfirmPasswordIssue \<in> set (superRefine ''ada@example.org''
      (exInputs\<lparr>i_currentPassword := Some ''secret1'', i_newPassword := Some ''secret2'',
                 i_confirmPassword := Some ''secret3''\<rparr>)) \<and>
   updateProfile (exData\<lparr>d_newPassword := Some ''secret2''\<rparr>) (exFirebase, exStore) =
     (Failed ValidationFailure, exFirebase, exStore)"
proof -
  note a = credential_validation[where initialEmail = "''ada@example.org''"
      and inp = "exInputs\<lparr>i_email := ''lovelace@example.org''\<rparr>", THEN conjunct1]
  note b = credential_validation[where initialEmail = "''ada@example.org''"
      and inp = "exInputs\<lparr>i_currentPassword := Some ''secret1'', i_newPassword := Some ''secret2'',
                 i_confirmPassword := Some ''secret3''\<rparr>", THEN conjunct2, THEN conjunct1]
  note c = credential_validation[where data = "exData\<lparr>d_newPassword := Some ''secret2''\<rparr>"
      and fb = exFirebase and st = exStore, THEN conjunct2, THEN conjunct2]
  from a have 1: "CurrentPasswordIssue \<in> set (superRefine ''ada@example.org''
      (exInputs\<lparr>i_email := ''lovelace@example.org''\<rparr>))"
    by (simp add: exInputs_def truthy_def)
  from b have 2: "ConfirmPasswordIssue \<in> set (superRefine ''ada@example.org''
      (exInputs\<lparr>i_currentPassword := Some ''secret1'', i_newPassword := Some ''secret2'',
                 i_confirmPassword := Some ''secret3''\<rparr>))"
    by (simp add: exInputs_def truthy_def)
  have h: "\<exists>u au. user exStore = Some u \<and> currentUser exFirebase = Some au \<and>
         (d_email (exData\<lparr>d_newPassword := Some ''secret2''\<rparr>) \<noteq> u_email u \<or>
          truthy (d_newPassword (exData\<lparr>d_newPassword := Some ''secret2''\<rparr>))) \<and>
         \<not> truthy (d_currentPassword (exData\<lparr>d_newPassword := Some ''secret2''\<rparr>))"
    by (simp add: exStore_def exFirebase_def exData_def truthy_def)
  from c h have 3: "updateProfile (exData\<lparr>d_newPassword := Some ''secret2''\<rparr>) (exFirebase, exStore) =
     (Failed ValidationFailure, exFirebase, exStore)"
    by blast
  from 1 2 3 show ?thesis by blast
qed

text \<open>
  The claim C8 as written has \<open>updateProfile\<close> perform no such validation and never raise
  \<open>ValidationFailure\<close>. Called with a changed email and no current password, it fails with
  that very error.
\<close>

theorem core_validation_counterexample:
  "user exStore = Some exUser \<and>
   d_email (exData\<lparr>d_email := ''lovelace@example.org''\<rparr>) \<noteq> u_email exUser \<and>
   d_currentPassword (exData\<lparr>d_email := ''lovelace@example.org''\<rparr>) = None \<and>
   updateProfile (exData\<lparr>d_email := ''lovelace@example.org''\<rparr>) (exFirebase, exStore) =
     (Failed ValidationFailure, exFirebase, exStore)"
  by (simp add: updateProfile_def exData_def exStore_def exUser_def exFirebase_def truthy_def)

section \<open>The refresh of the published list\<close>

lemma fetchClasses_with_school_example:
  "fetchClasses ''2025-01-15T09:00:00.000Z'' (exFirebase, exStore) =
     (Ok,
      exFirebase\<lparr>calls := [GetDocs ''classes'' [SchoolIdEq ''s1'', DatetimeGe ''2025-01-15T09:00:00.000Z'']]\<rparr>,
      exStore\<lparr>classes := [exClass ''c3'' ''2025-01-20T18:00:00.000Z'' (Some exSeries) [],
                          exClass ''c4'' ''2025-01-27T18:00:00.000Z'' (Some exSeries) [''u2'', ''u3'']]\<rparr>)"
  by (simp add: fetchClasses_def exStore_def exUser_def exFirebase_def exClasses_def exClass_def
      getDocs_def logCall_def Let_def)

text \<open>
  C10. When the current user is \<open>null\<close> or has no \<open>schoolId\<close> (absent, or the empty
  text, which the test \<open>!user?.schoolId\<close> treats alike), \<open>fetchClasses\<close> returns normally
  and leaves everything as it was: no call is added to the record of calls to the store
  (no query is made), the documents are the same, and the published state, with its list
  of classes, is the same.
\<close>

theorem fetchClasses_without_school:
  assumes "user st = None \<or> (\<exists>u. user st = Some u \<and> \<not> truthy (u_schoolId u))"
  shows "fetchClasses now (fb, st) = (Ok, fb, st)"
proof (cases "user st")
  case None
  then show ?thesis by (simp add: fetchClasses_def)
next
  case (Some u)
  with assms have "\<not> truthy (u_schoolId u)" by simp
  with Some show ?thesis
    by (simp add: fetchClasses_def truthy_def split: option.splits)
qed

theorem fetchClasses_without_school_witness:
  "fetchClasses ''2025-01-15T09:00:00.000Z'' (exFirebase, exStore\<lparr>user := None\<rparr>) =
     (Ok, exFirebase, exStore\<lparr>user := None\<rparr>) \<and>
   fetchClasses ''2025-01-15T09:00:00.000Z''
     (exFirebase, exStore\<lparr>user := Some (exUser\<lparr>u_schoolId := None\<rparr>)\<rparr>) =
     (Ok, exFirebase, exStore\<lparr>user := Some (exUser\<lparr>u_schoolId := None\<rparr>)\<rparr>)"
  using fetchClasses_without_school[of "exStore\<lparr>user := None\<rparr>" "''2025-01-15T09:00:00.000Z''" exFirebase]
    fetchClasses_without_school[of "exStore\<lparr>user := Some (exUser\<lparr>u_schoolId := None\<rparr>)\<rparr>"
      "''2025-01-15T09:00:00.000Z''" exFirebase]
  by (simp add: truthy_def)

end
